theory Spec2Isabelle
  imports Main "HOL-Library.Word"
begin

section \<open>Python values, classes and type descriptors\<close>

text \<open>
  The runtime classes that values of this development can have. \<open>CData n\<close> is the
  dataclass named \<open>n\<close>; \<open>CException\<close> is the class of every exception instance.
\<close>

datatype cls =
  CNone | CBool | CInt | CFloat | CStr
  | CList | CTuple | CSet | CDict
  | CData string
  | CException

text \<open>
  Declared field types (type hints). \<open>Optional[T]\<close> is \<open>TUnion [T, TCls CNone]\<close>, as in
  \<open>typing\<close>; \<open>TTupleVar T\<close> is \<open>Tuple[T, ...]\<close>.
\<close>

datatype ty =
  TCls cls
  | TUnion "ty list"
  | TList ty
  | TSet ty
  | TDict ty ty
  | TTuple "ty list"
  | TTupleVar ty
  | TInitVar ty

text \<open>
  A value of \<open>Config.paths[data_class][field.name]\<close>: a path string, a list of path
  strings, or anything else (for instance \<open>None\<close>).
\<close>

datatype pathspec = PStr string | PList "string list" | POther

text \<open>
  Values and exceptions: decoded JSON (null, booleans, numbers, strings, lists, and
  dictionaries with string keys), tuples, dataclass instances and exception instances.
  A dictionary is an association list looked up with \<open>map_of\<close>; a dataclass instance is
  its class name with its attributes; a float is its 64-bit pattern; an exception
  instance is a value as well (\<open>VExc\<close>), since \<open>get\<close> receives one as its default. The
  field errors carry \<open>field_path\<close> (\<open>None\<close> until \<open>update_path\<close> sets it), and a message
  that the source formats from values carries those values
  (\<open>DefaultValueNotFoundError None\<close> is the exception raised without a message).
  \<open>Unmodelled\<close> marks a result that this value universe cannot express (a dictionary
  with a key that is not a string, a set).
\<close>

datatype val =
  VNone
  | VBool bool
  | VInt int
  | VFloat "64 word"
  | VStr string
  | VList "val list"
  | VTuple "val list"
  | VDict "(string \<times> val) list"
  | VObj string "(string \<times> val) list"
  | VExc err
and err =
  KeyError string
  | IndexError string
  | ValueError string "val list"
  | TypeError string
  | DefaultValueNotFoundError "(pathspec \<times> val) option"
  | WrongTypeError "string option" ty val
  | UnionMatchError "string option" ty val
  | StrictUnionMatchError "string option" "(ty \<times> val) list"
  | MissingValueError "string option"
  | UnexpectedDataError "string set"
  | ForwardReferenceError string
  | Unmodelled string

type_synonym 'a result = "err + 'a"

section \<open>The path navigator (dataclasses_helpers.py)\<close>

text \<open>Python's \<open>path.split('.')\<close>: never empty, \<open>''''\<close> gives \<open>['''']\<close>.\<close>

fun split_dot :: "string \<Rightarrow> string list" where
  "split_dot [] = [[]]"
| "split_dot (c # cs) =
     (if c = CHR ''.'' then [] # split_dot cs
      else (case split_dot cs of [] \<Rightarrow> [[c]] | w # ws \<Rightarrow> (c # w) # ws))"

text \<open>
  \<open>if isinstance(default, Exception): raise default\<close> followed by \<open>return default\<close>,
  the tail that \<open>_get\<close> and \<open>_get_deep_value\<close> share.
\<close>

definition raise_or_return :: "val \<Rightarrow> val result" where
  "raise_or_return dflt = (case dflt of VExc e \<Rightarrow> Inl e | _ \<Rightarrow> Inr dflt)"

text \<open>
  \<open>_has\<close>: the loop runs while more than one segment is left; \<open>p[0]\<close> on an empty list
  would raise IndexError, which \<open>split\<close> never produces.
\<close>

fun has' :: "string list \<Rightarrow> (string \<times> val) list \<Rightarrow> bool result" where
  "has' [] d = Inl (IndexError ''list index out of range'')"
| "has' [k] d = Inr (map_of d k \<noteq> None)"
| "has' (k # p) d =
     (case map_of d k of
        None \<Rightarrow> Inr False
      | Some (VDict d') \<Rightarrow> has' p d'
      | Some _ \<Rightarrow> Inr False)"

definition has :: "string \<Rightarrow> (string \<times> val) list \<Rightarrow> bool result" where
  "has path dicts = has' (split_dot path) dicts"

text \<open>\<open>_get\<close>, with the same loop.\<close>

fun get' :: "string list \<Rightarrow> (string \<times> val) list \<Rightarrow> val \<Rightarrow> val result" where
  "get' [] d dflt = Inl (IndexError ''list index out of range'')"
| "get' [k] d dflt =
     (case map_of d k of
        Some v \<Rightarrow> Inr v
      | None \<Rightarrow> raise_or_return dflt)"
| "get' (k # p) d dflt =
     (case map_of d k of
        None \<Rightarrow> raise_or_return dflt
      | Some (VDict d') \<Rightarrow> get' p d' dflt
      | Some _ \<Rightarrow> Inl (KeyError (''element is not a dict: '' @ k)))"

definition get :: "string \<Rightarrow> (string \<times> val) list \<Rightarrow> val \<Rightarrow> val result" where
  "get path dicts dflt = get' (split_dot path) dicts dflt"

section \<open>Ordered-candidate resolution (core.py, \<open>_get_deep_value\<close>)\<close>

text \<open>
  The \<open>for path in path_or_paths\<close> loop: the first \<open>get\<close> that returns ends the
  function, a \<open>get\<close> that raises is swallowed by the bare \<open>except\<close>.
\<close>

fun get_first :: "string list \<Rightarrow> (string \<times> val) list \<Rightarrow> val option" where
  "get_first [] data = None"
| "get_first (path # paths) data =
     (case get path data (VExc (KeyError [])) of
        Inr v \<Rightarrow> Some v
      | Inl _ \<Rightarrow> get_first paths data)"

definition get_deep_value :: "(string \<times> val) list \<Rightarrow> pathspec \<Rightarrow> val \<Rightarrow> val result" where
  "get_deep_value data path_or_paths dflt =
     (case path_or_paths of
        PStr path \<Rightarrow> get path data dflt
      | PList paths \<Rightarrow>
          (case get_first paths data of
             Some v \<Rightarrow> Inr v
           | None \<Rightarrow> raise_or_return dflt)
      | POther \<Rightarrow>
          Inl (ValueError ''Expected either a path string or a list of path strings for: {}.''
                 [VDict data]))"

section \<open>The Type Reflector and the configuration\<close>

text \<open>
  A \<open>dataclasses.Field\<close> with its resolved type hint (\<open>data_class_hints[field.name]\<close>).
  \<open>None\<close> in \<open>field_default\<close> and \<open>field_default_factory\<close> is \<open>MISSING\<close>; a factory is
  represented by the value it returns.
\<close>

record field =
  field_name :: string
  field_type :: ty
  field_init :: bool
  field_default :: "val option"
  field_default_factory :: "val option"

text \<open>
  A dataclass as the reflection calls of \<open>from_dict\<close> see it: \<open>get_fields\<close>, \<open>is_frozen\<close>,
  the proper ancestors that \<open>issubclass\<close> accepts, and the message of the NameError that
  \<open>get_type_hints\<close> raises on an unresolved forward reference (\<open>None\<close>: it resolves).
\<close>

record dataclass =
  dc_fields :: "field list"
  dc_frozen :: bool
  dc_bases :: "cls list"
  dc_name_error :: "string option"

text \<open>
  What the interpreter supplies: the table of declared dataclasses, and the call
  \<open>type_(data)\<close> of a plain class on one argument (\<open>int('1')\<close>, \<open>str(1)\<close>, \<open>E('a')\<close>), which
  is left as a parameter.
\<close>

record env =
  classes :: "string \<Rightarrow> dataclass option"
  call_type :: "cls \<Rightarrow> val \<Rightarrow> val result"

text \<open>
  \<open>Config\<close> (config.py). A hook may raise, so it returns a result; \<open>paths\<close> is keyed by
  the dataclass name and then by the field name.
\<close>

record config =
  type_hooks :: "(ty \<times> (val \<Rightarrow> val result)) list"
  cast :: "cls list"
  forward_references :: "(string \<times> ty) list option"
  check_types :: bool
  strict :: bool
  strict_unions_match :: bool
  allow_superclasses :: bool
  follow_type_hints :: bool
  paths :: "(string \<times> (string \<times> pathspec) list) list"

definition default_config :: config where
  "default_config =
     \<lparr>type_hooks = [], cast = [], forward_references = None, check_types = True,
      strict = False, strict_unions_match = False, allow_superclasses = False,
      follow_type_hints = False, paths = []\<rparr>"

section \<open>Python built-ins used by core.py\<close>

text \<open>\<open>type(value)\<close> and \<open>data.__class__\<close>.\<close>

fun type_of :: "val \<Rightarrow> cls" where
  "type_of VNone = CNone"
| "type_of (VBool _) = CBool"
| "type_of (VInt _) = CInt"
| "type_of (VFloat _) = CFloat"
| "type_of (VStr _) = CStr"
| "type_of (VList _) = CList"
| "type_of (VTuple _) = CTuple"
| "type_of (VDict _) = CDict"
| "type_of (VObj n _) = CData n"
| "type_of (VExc _) = CException"

text \<open>
  The classes \<open>c'\<close> with \<open>issubclass(c, c')\<close>: the class itself, \<open>int\<close> for \<open>bool\<close>, and the
  declared ancestors of a dataclass (\<open>object\<close> is not among the modelled classes).
\<close>

definition superclasses :: "env \<Rightarrow> cls \<Rightarrow> cls list" where
  "superclasses e c =
     c # (case c of
            CBool \<Rightarrow> [CInt]
          | CData n \<Rightarrow> (case classes e n of None \<Rightarrow> [] | Some dc \<Rightarrow> dc_bases dc)
          | _ \<Rightarrow> [])"

text \<open>
  \<open>issubclass(t, c)\<close> for a type hint \<open>t\<close>: a TypeError unless \<open>t\<close> is a class (a generic
  alias, a union and an \<open>InitVar\<close> are not).
\<close>

definition issubclass :: "env \<Rightarrow> ty \<Rightarrow> cls \<Rightarrow> bool result" where
  "issubclass e t c =
     (case t of
        TCls c' \<Rightarrow> Inr (c \<in> set (superclasses e c'))
      | _ \<Rightarrow> Inl (TypeError ''issubclass() arg 1 must be a class''))"

definition isinstance :: "env \<Rightarrow> val \<Rightarrow> cls \<Rightarrow> bool" where
  "isinstance e v c = (c \<in> set (superclasses e (type_of v)))"

text \<open>
  \<open>isinstance(field_type, GenericAlias) or isinstance(field_type, _GenericAlias)\<close>:
  true of every subscripted generic, and of \<open>typing.Union[...]\<close> and \<open>typing.Optional[...]\<close>
  too, whose class \<open>_UnionGenericAlias\<close> derives from \<open>_GenericAlias\<close> (CPython 3.9 to
  3.13, the versions with both \<open>types.GenericAlias\<close> and that class); false of a plain
  class and of an \<open>InitVar\<close>.
\<close>

fun is_generic_alias :: "ty \<Rightarrow> bool" where
  "is_generic_alias (TCls _) = False"
| "is_generic_alias (TInitVar _) = False"
| "is_generic_alias _ = True"

text \<open>\<open>d[k] = v\<close> on a dict kept as an association list.\<close>

fun dict_set :: "'k \<Rightarrow> 'v \<Rightarrow> ('k \<times> 'v) list \<Rightarrow> ('k \<times> 'v) list" where
  "dict_set k v [] = [(k, v)]"
| "dict_set k v ((k', v') # kvs) =
     (if k = k' then (k, v) # kvs else (k', v') # dict_set k v kvs)"

text \<open>What \<open>for item in value\<close> yields; \<open>None\<close> when the value is not iterable.\<close>

fun iter_val :: "val \<Rightarrow> val list option" where
  "iter_val (VStr s) = Some (map (\<lambda>c. VStr [c]) s)"
| "iter_val (VList xs) = Some xs"
| "iter_val (VTuple xs) = Some xs"
| "iter_val (VDict kvs) = Some (map (\<lambda>(k, _). VStr k) kvs)"
| "iter_val _ = None"

text \<open>
  \<open>dict(items)\<close> on a sequence of items, one item after the other: each item has to be
  iterable with exactly two elements, the key and the value.
\<close>

definition pair_of_item :: "val \<Rightarrow> (string \<times> val) result" where
  "pair_of_item x =
     (case iter_val x of
        None \<Rightarrow> Inl (TypeError ''cannot convert dictionary update sequence element to a sequence'')
      | Some [VStr k, v] \<Rightarrow> Inr (k, v)
      | Some [_, _] \<Rightarrow> Inl (Unmodelled ''dictionary key that is not a string'')
      | Some _ \<Rightarrow> Inl (ValueError ''dictionary update sequence element has the wrong length'' []))"

fun dict_of_items :: "(string \<times> val) list \<Rightarrow> val list \<Rightarrow> val result" where
  "dict_of_items acc [] = Inr (VDict acc)"
| "dict_of_items acc (x # xs) =
     (case pair_of_item x of
        Inl er \<Rightarrow> Inl er
      | Inr (k, v) \<Rightarrow> dict_of_items (dict_set k v acc) xs)"

text \<open>
  \<open>str(generator)\<close> is the representation of the generator object, which is never
  consumed; apart from the object's address it reads as follows.
\<close>

definition generator_repr :: string where
  "generator_repr = ''<generator object _build_value_for_collection.<locals>.<genexpr>>''"

text \<open>
  \<open>origin(data)\<close> for the origin class of a generic collection: \<open>list(data)\<close>, \<open>tuple(data)\<close>,
  \<open>dict(data)\<close>, \<open>set(data)\<close>.
\<close>

definition call_origin :: "cls \<Rightarrow> val \<Rightarrow> val result" where
  "call_origin c data =
     (case iter_val data of
        None \<Rightarrow> Inl (TypeError ''object is not iterable'')
      | Some xs \<Rightarrow>
          (if c = CList then Inr (VList xs)
           else if c = CTuple then Inr (VTuple xs)
           else if c = CDict then (case data of VDict kvs \<Rightarrow> Inr (VDict kvs) | _ \<Rightarrow> dict_of_items [] xs)
           else Inl (Unmodelled ''set'')))"

section \<open>dacite.types and dacite.exceptions\<close>

text \<open>
  Modelled from the spec: the module \<open>dacite/types.py\<close> is not part of the sources at
  hand. Section 3 of the specification gives the type descriptor variants (leaf,
  Optional as a union with the null type, union, generic collection of kind sequence,
  tuple, set or mapping, composite); the predicates below read them off \<open>ty\<close>.
\<close>

fun is_init_var :: "ty \<Rightarrow> bool" where
  "is_init_var (TInitVar _) = True"
| "is_init_var _ = False"

fun extract_init_var :: "ty \<Rightarrow> ty" where
  "extract_init_var (TInitVar t) = t"
| "extract_init_var t = t"

fun is_union :: "ty \<Rightarrow> bool" where
  "is_union (TUnion _) = True"
| "is_union _ = False"

text \<open>\<open>extract_generic\<close>: the type arguments (\<open>Tuple[T, ...]\<close> has the single argument \<open>T\<close> here).\<close>

fun extract_generic :: "ty \<Rightarrow> ty list" where
  "extract_generic (TUnion ts) = ts"
| "extract_generic (TList t) = [t]"
| "extract_generic (TSet t) = [t]"
| "extract_generic (TDict k v) = [k, v]"
| "extract_generic (TTuple ts) = ts"
| "extract_generic (TTupleVar t) = [t]"
| "extract_generic _ = []"

definition is_optional :: "ty \<Rightarrow> bool" where
  "is_optional t = (is_union t \<and> TCls CNone \<in> set (extract_generic t))"

fun is_generic_collection :: "ty \<Rightarrow> bool" where
  "is_generic_collection (TList _) = True"
| "is_generic_collection (TSet _) = True"
| "is_generic_collection (TDict _ _) = True"
| "is_generic_collection (TTuple _) = True"
| "is_generic_collection (TTupleVar _) = True"
| "is_generic_collection _ = False"

fun extract_origin_collection :: "ty \<Rightarrow> cls" where
  "extract_origin_collection (TList _) = CList"
| "extract_origin_collection (TDict _ _) = CDict"
| "extract_origin_collection (TTuple _) = CTuple"
| "extract_origin_collection (TTupleVar _) = CTuple"
| "extract_origin_collection _ = CSet"

text \<open>
  Modelled from the spec: \<open>is_subclass\<close> of \<open>dacite/types.py\<close>, "an ancestor of (or equal
  to) the target type" of section 4.1, where a generic collection stands for its own
  container class and anything that is not a class has no ancestor.
\<close>

definition is_subclass :: "env \<Rightarrow> ty \<Rightarrow> cls \<Rightarrow> bool" where
  "is_subclass e t c =
     (if is_generic_collection t then c \<in> set (superclasses e (extract_origin_collection t))
      else (case issubclass e t c of Inr b \<Rightarrow> b | Inl _ \<Rightarrow> False))"

text \<open>
  Modelled from the spec: \<open>is_instance\<close> of \<open>dacite/types.py\<close>, the "structural
  instance-of match against the full declared type (covering unions, optionals, and
  nested composites)" of section 4.5: a plain class by \<open>isinstance\<close>, a union by any of
  its members, a generic collection by its container class and every element.
\<close>

fun is_instance :: "env \<Rightarrow> val \<Rightarrow> ty \<Rightarrow> bool"
  and all_instances :: "env \<Rightarrow> val list \<Rightarrow> ty \<Rightarrow> bool"
  and any_instance :: "env \<Rightarrow> val \<Rightarrow> ty list \<Rightarrow> bool"
  and zip_instances :: "env \<Rightarrow> val list \<Rightarrow> ty list \<Rightarrow> bool"
  and dict_instances :: "env \<Rightarrow> (string \<times> val) list \<Rightarrow> ty \<Rightarrow> ty \<Rightarrow> bool" where
  "is_instance e v (TCls c) = isinstance e v c"
| "is_instance e v (TUnion ts) = any_instance e v ts"
| "is_instance e v (TList t) = (case v of VList xs \<Rightarrow> all_instances e xs t | _ \<Rightarrow> False)"
| "is_instance e v (TSet t) = False"
| "is_instance e v (TDict k t) = (case v of VDict kvs \<Rightarrow> dict_instances e kvs k t | _ \<Rightarrow> False)"
| "is_instance e v (TTuple ts) = (case v of VTuple xs \<Rightarrow> zip_instances e xs ts | _ \<Rightarrow> False)"
| "is_instance e v (TTupleVar t) = (case v of VTuple xs \<Rightarrow> all_instances e xs t | _ \<Rightarrow> False)"
| "is_instance e v (TInitVar t) = is_instance e v t"
| "all_instances e [] t = True"
| "all_instances e (x # xs) t = (is_instance e x t \<and> all_instances e xs t)"
| "any_instance e v [] = False"
| "any_instance e v (t # ts) = (is_instance e v t \<or> any_instance e v ts)"
| "zip_instances e [] [] = True"
| "zip_instances e (x # xs) (t # ts) = (is_instance e x t \<and> zip_instances e xs ts)"
| "zip_instances e _ _ = False"
| "dict_instances e [] k t = True"
| "dict_instances e ((key, x) # kvs) k t =
     (is_instance e (VStr key) k \<and> is_instance e x t \<and> dict_instances e kvs k t)"

text \<open>
  Modelled from the spec: \<open>dacite/exceptions.py\<close> is not part of the sources at hand.
  Section 7: the field errors carry "a dotted field-location path that nested failures
  prepend as they unwind". \<open>is_dacite_field_error\<close> is \<open>except DaciteFieldError\<close>,
  \<open>is_dacite_error\<close> is \<open>except DaciteError\<close>.
\<close>

fun is_dacite_field_error :: "err \<Rightarrow> bool" where
  "is_dacite_field_error (WrongTypeError _ _ _) = True"
| "is_dacite_field_error (UnionMatchError _ _ _) = True"
| "is_dacite_field_error (StrictUnionMatchError _ _) = True"
| "is_dacite_field_error (MissingValueError _) = True"
| "is_dacite_field_error _ = False"

fun is_dacite_error :: "err \<Rightarrow> bool" where
  "is_dacite_error (UnexpectedDataError _) = True"
| "is_dacite_error (ForwardReferenceError _) = True"
| "is_dacite_error e = is_dacite_field_error e"

definition prepend_path :: "string \<Rightarrow> string option \<Rightarrow> string option" where
  "prepend_path parent p =
     (case p of
        None \<Rightarrow> Some parent
      | Some q \<Rightarrow> if q = [] then Some parent else Some (parent @ ''.'' @ q))"

fun update_path :: "string \<Rightarrow> err \<Rightarrow> err" where
  "update_path parent (WrongTypeError p t v) = WrongTypeError (prepend_path parent p) t v"
| "update_path parent (UnionMatchError p t v) = UnionMatchError (prepend_path parent p) t v"
| "update_path parent (StrictUnionMatchError p ms) = StrictUnionMatchError (prepend_path parent p) ms"
| "update_path parent (MissingValueError p) = MissingValueError (prepend_path parent p)"
| "update_path parent e = e"

section \<open>Default values (dataclasses_helpers.py)\<close>

definition get_default_value_for_field :: "field \<Rightarrow> ty \<Rightarrow> val result" where
  "get_default_value_for_field fld type' =
     (case field_default fld of
        Some v \<Rightarrow> Inr v
      | None \<Rightarrow>
          (case field_default_factory fld of
             Some v \<Rightarrow> Inr v
           | None \<Rightarrow>
               if is_optional type' then Inr VNone
               else Inl (DefaultValueNotFoundError None)))"

section \<open>The value builder (core.py)\<close>

text \<open>
  \<open>_build_value\<close>, \<open>_build_value_for_union\<close>, \<open>_build_value_for_collection\<close> and \<open>from_dict\<close>
  call each other, and nothing bounds the depth: a dataclass may refer to itself. The
  recursive call \<open>_build_value(type_, data, config)\<close> is therefore a parameter \<open>bv\<close> of
  every function below, and \<open>build_value\<close> at the end supplies it, counting the nesting
  depth down. The outer \<open>option\<close> is \<open>None\<close> when that depth is used up, \<open>Inl\<close> is a raised
  exception, \<open>Inr\<close> a returned value.
\<close>

type_synonym builder = "ty \<Rightarrow> val \<Rightarrow> val result option"

definition bind_res :: "'a result option \<Rightarrow> ('a \<Rightarrow> 'b result option) \<Rightarrow> 'b result option" where
  "bind_res m f = (case m of None \<Rightarrow> None | Some (Inl e) \<Rightarrow> Some (Inl e) | Some (Inr x) \<Rightarrow> f x)"

subsection \<open>\<open>_build_value_for_collection\<close>\<close>

text \<open>
  The builder for the type argument at position \<open>i\<close>; a missing argument is the default
  \<open>Any\<close> of \<open>extract_generic\<close>, and the padding type \<open>None\<close> of \<open>zip_longest\<close> behaves
  the same: no branch of \<open>_build_value\<close> applies to it and the item is returned as it is.
\<close>

definition build_as_is :: "val \<Rightarrow> val result option" where
  "build_as_is x = Some (Inr x)"

definition item_builder :: "builder \<Rightarrow> ty list \<Rightarrow> nat \<Rightarrow> val \<Rightarrow> val result option" where
  "item_builder bv types i = (if i < length types then bv (types ! i) else build_as_is)"

text \<open>The generator \<open>_build_value(type_=item_type, data=item, config=config) for item in data\<close>.\<close>

fun build_items :: "(val \<Rightarrow> val result option) \<Rightarrow> val list \<Rightarrow> val list result option" where
  "build_items b [] = Some (Inr [])"
| "build_items b (item # items) =
     bind_res (b item) (\<lambda>y. bind_res (build_items b items) (\<lambda>ys. Some (Inr (y # ys))))"

text \<open>The pairs \<open>(key, _build_value(...value...)) for key, value in data.items()\<close>.\<close>

fun build_dict_values ::
  "(val \<Rightarrow> val result option) \<Rightarrow> (string \<times> val) list \<Rightarrow> (string \<times> val) list result option" where
  "build_dict_values b [] = Some (Inr [])"
| "build_dict_values b ((key, v) # kvs) =
     bind_res (b v) (\<lambda>y. bind_res (build_dict_values b kvs) (\<lambda>ys. Some (Inr ((key, y) # ys))))"

text \<open>
  The generator over \<open>zip_longest(data, types)\<close>: the shorter side is padded with \<open>None\<close>,
  as data (\<open>VNone\<close>) or as type.
\<close>

fun build_zip_longest :: "builder \<Rightarrow> val list \<Rightarrow> ty list \<Rightarrow> val list result option" where
  "build_zip_longest bv [] [] = Some (Inr [])"
| "build_zip_longest bv (item # items) (t # ts) =
     bind_res (bv t item) (\<lambda>y. bind_res (build_zip_longest bv items ts) (\<lambda>ys. Some (Inr (y # ys))))"
| "build_zip_longest bv (item # items) [] =
     bind_res (build_as_is item) (\<lambda>y. bind_res (build_zip_longest bv items []) (\<lambda>ys. Some (Inr (y # ys))))"
| "build_zip_longest bv [] (t # ts) =
     bind_res (bv t VNone) (\<lambda>y. bind_res (build_zip_longest bv [] ts) (\<lambda>ys. Some (Inr (y # ys))))"

text \<open>
  \<open>dict(generator)\<close> when the raw value is a dict and the target is not a mapping: the
  keys are built one by one and each built key is taken as a key-value pair.
\<close>

fun build_dict_of_items ::
  "(val \<Rightarrow> val result option) \<Rightarrow> (string \<times> val) list \<Rightarrow> val list \<Rightarrow> val result option" where
  "build_dict_of_items b acc [] = Some (Inr (VDict acc))"
| "build_dict_of_items b acc (item # items) =
     bind_res (b item) (\<lambda>y.
       case pair_of_item y of
         Inl e \<Rightarrow> Some (Inl e)
       | Inr (k, v) \<Rightarrow> build_dict_of_items b (dict_set k v acc) items)"

text \<open>
  \<open>is_subclass(collection, Mapping)\<close>, \<open>is_subclass(collection, tuple)\<close> and
  \<open>is_subclass(collection, Collection)\<close>, by the container class of the target.
\<close>

definition container_class :: "ty \<Rightarrow> cls option" where
  "container_class t =
     (if is_generic_collection t then Some (extract_origin_collection t)
      else (case t of TCls c \<Rightarrow> Some c | _ \<Rightarrow> None))"

definition is_mapping_type :: "ty \<Rightarrow> bool" where
  "is_mapping_type t = (container_class t = Some CDict)"

definition is_tuple_type :: "ty \<Rightarrow> bool" where
  "is_tuple_type t = (container_class t = Some CTuple)"

definition is_collection_type :: "ty \<Rightarrow> bool" where
  "is_collection_type t =
     (case container_class t of
        Some c \<Rightarrow> c \<in> {CList, CTuple, CSet, CDict, CStr}
      | None \<Rightarrow> False)"

text \<open>
  The third branch, \<open>data_type(... for item in data)\<close> with \<open>data_type = data.__class__\<close>:
  the container that comes back has the class of the raw value.
\<close>

definition rebuild_collection :: "builder \<Rightarrow> ty \<Rightarrow> val \<Rightarrow> val result option" where
  "rebuild_collection bv collection data =
     (let b = item_builder bv (extract_generic collection) 0 in
      case data of
        VList items \<Rightarrow> bind_res (build_items b items) (\<lambda>ys. Some (Inr (VList ys)))
      | VTuple items \<Rightarrow> bind_res (build_items b items) (\<lambda>ys. Some (Inr (VTuple ys)))
      | VDict kvs \<Rightarrow> build_dict_of_items b [] (map (\<lambda>(k, _). VStr k) kvs)
      | VStr s \<Rightarrow> Some (Inr (VStr generator_repr))
      | _ \<Rightarrow> Some (Inr data))"

definition build_value_for_collection :: "builder \<Rightarrow> ty \<Rightarrow> val \<Rightarrow> val result option" where
  "build_value_for_collection bv collection data =
     (case data of
        VDict kvs \<Rightarrow>
          if is_mapping_type collection then
            bind_res (build_dict_values (item_builder bv (extract_generic collection) 1) kvs)
              (\<lambda>ys. Some (Inr (VDict ys)))
          else if is_collection_type collection then rebuild_collection bv collection data
          else Some (Inr data)
      | VTuple items \<Rightarrow>
          if is_tuple_type collection then
            (if items = [] then Some (Inr (VTuple []))
             else (case collection of
                     TTupleVar t \<Rightarrow> bind_res (build_items (bv t) items) (\<lambda>ys. Some (Inr (VTuple ys)))
                   | _ \<Rightarrow> bind_res (build_zip_longest bv items (extract_generic collection))
                            (\<lambda>ys. Some (Inr (VTuple ys)))))
          else if is_collection_type collection then rebuild_collection bv collection data
          else Some (Inr data)
      | VList _ \<Rightarrow>
          if is_collection_type collection then rebuild_collection bv collection data
          else Some (Inr data)
      | VStr _ \<Rightarrow>
          if is_collection_type collection then rebuild_collection bv collection data
          else Some (Inr data)
      | _ \<Rightarrow> Some (Inr data))"

subsection \<open>\<open>_build_value_for_union\<close>\<close>

text \<open>
  The test \<open>is_instance(value, inner_type) or config.allow_superclasses and
  issubclass(inner_type, type(value))\<close>; \<open>issubclass\<close> can raise.
\<close>

definition accepts :: "env \<Rightarrow> config \<Rightarrow> val \<Rightarrow> ty \<Rightarrow> bool result" where
  "accepts e cfg v inner_type =
     (if is_instance e v inner_type then Inr True
      else if allow_superclasses cfg then issubclass e inner_type (type_of v)
      else Inr False)"

text \<open>
  The loop over the members. \<open>Inr value\<close> is the \<open>return value\<close> inside the loop,
  \<open>Inl union_matches\<close> the end of the loop. An exception of \<open>_build_value\<close> is swallowed
  (\<open>except Exception: continue\<close>); an exception of the test only if it is a \<open>DaciteError\<close>.
\<close>

fun union_loop ::
  "builder \<Rightarrow> env \<Rightarrow> config \<Rightarrow> val \<Rightarrow> ty list \<Rightarrow> (ty \<times> val) list
     \<Rightarrow> ((ty \<times> val) list + val) result option" where
  "union_loop bv e cfg data [] union_matches = Some (Inr (Inl union_matches))"
| "union_loop bv e cfg data (inner_type # types) union_matches =
     (case bv inner_type data of
        None \<Rightarrow> None
      | Some (Inl _) \<Rightarrow> union_loop bv e cfg data types union_matches
      | Some (Inr v) \<Rightarrow>
          (case accepts e cfg v inner_type of
             Inl er \<Rightarrow>
               if is_dacite_error er then union_loop bv e cfg data types union_matches
               else Some (Inl er)
           | Inr True \<Rightarrow>
               if strict_unions_match cfg
               then union_loop bv e cfg data types (dict_set inner_type v union_matches)
               else Some (Inr (Inr v))
           | Inr False \<Rightarrow> union_loop bv e cfg data types union_matches))"

text \<open>\<open>union_matches.popitem()[1]\<close>: the value inserted last; KeyError on an empty dict.\<close>

definition popitem_value :: "(ty \<times> val) list \<Rightarrow> val result" where
  "popitem_value union_matches =
     (if union_matches = [] then Inl (KeyError ''popitem(): dictionary is empty'')
      else Inr (snd (last union_matches)))"

definition build_value_for_union :: "builder \<Rightarrow> env \<Rightarrow> config \<Rightarrow> ty \<Rightarrow> val \<Rightarrow> val result option" where
  "build_value_for_union bv e cfg union_type data =
     (let types = extract_generic union_type in
      if is_optional union_type \<and> length types = 2 then bv (types ! 0) data
      else
        bind_res (union_loop bv e cfg data types []) (\<lambda>r.
          case r of
            Inr v \<Rightarrow> Some (Inr v)
          | Inl union_matches \<Rightarrow>
              if strict_unions_match cfg then
                (if length union_matches > 1
                 then Some (Inl (StrictUnionMatchError None union_matches))
                 else Some (popitem_value union_matches))
              else if \<not> check_types cfg then Some (Inr data)
              else Some (Inl (UnionMatchError None union_type data))))"

section \<open>The object assembler (core.py, \<open>from_dict\<close>)\<close>

text \<open>\<open>[issubclass(inner_type, type(value)) for inner_type in types]\<close>, stopping at a raise.\<close>

fun issubclass_each :: "env \<Rightarrow> ty list \<Rightarrow> cls \<Rightarrow> bool list result" where
  "issubclass_each e [] c = Inr []"
| "issubclass_each e (t # ts) c =
     (case issubclass e t c of
        Inl er \<Rightarrow> Inl er
      | Inr b \<Rightarrow> (case issubclass_each e ts c of Inl er \<Rightarrow> Inl er | Inr bs \<Rightarrow> Inr (b # bs)))"

text \<open>
  The block under \<open>if config.check_types:\<close> (lines 91 to 110): \<open>Inr ()\<close> when it falls
  through, \<open>Inl\<close> for the WrongTypeError it raises or the TypeError of \<open>issubclass\<close> and
  \<open>reduce\<close>.
\<close>

definition check_field_type :: "env \<Rightarrow> config \<Rightarrow> string \<Rightarrow> ty \<Rightarrow> val \<Rightarrow> unit result" where
  "check_field_type e cfg name field_type' v =
     (let wrong = Inl (WrongTypeError (Some name) field_type' v) in
      if allow_superclasses cfg \<and> is_union field_type' then
        (case issubclass_each e (extract_generic field_type') (type_of v) of
           Inl er \<Rightarrow> Inl er
         | Inr [] \<Rightarrow> Inl (TypeError ''reduce() of empty iterable with no initial value'')
         | Inr bs \<Rightarrow> if \<not> (\<exists>b \<in> set bs. b) then wrong else Inr ())
      else if is_generic_alias field_type' then
        (case field_type' of
           TList contained_type \<Rightarrow>
             (case v of
                VList [] \<Rightarrow> Inr ()
              | VList (x # _) \<Rightarrow>
                  (case issubclass e contained_type (type_of x) of
                     Inl er \<Rightarrow> Inl er
                   | Inr b \<Rightarrow> if \<not> b then wrong else Inr ())
              | _ \<Rightarrow> wrong)
         | _ \<Rightarrow> Inr ())
      else if allow_superclasses cfg then
        (case issubclass e field_type' (type_of v) of
           Inl er \<Rightarrow> Inl er
         | Inr True \<Rightarrow> Inr ()
         | Inr False \<Rightarrow> if \<not> is_instance e v field_type' then wrong else Inr ())
      else if \<not> is_instance e v field_type' then wrong
      else Inr ())"

text \<open>\<open>config.paths[data_class][field.name]\<close>, when both keys are present.\<close>

definition lookup_path :: "config \<Rightarrow> string \<Rightarrow> string \<Rightarrow> pathspec option" where
  "lookup_path cfg data_class name =
     (case map_of (paths cfg) data_class of
        None \<Rightarrow> None
      | Some m \<Rightarrow> map_of m name)"

text \<open>
  The default handed to \<open>_get_deep_value\<close> (lines 72 to 75): the field's default, or a
  \<open>DefaultValueNotFoundError\<close> instance when it has none.
\<close>

definition path_default :: "field \<Rightarrow> pathspec \<Rightarrow> (string \<times> val) list \<Rightarrow> val" where
  "path_default fld path_or_paths data =
     (case get_default_value_for_field fld (field_type fld) of
        Inr d \<Rightarrow> d
      | Inl _ \<Rightarrow> VExc (DefaultValueNotFoundError (Some (path_or_paths, VDict data))))"

text \<open>
  One round of the loop \<open>for field in data_class_fields\<close>, up to the point where
  \<open>value\<close> is known: \<open>Inr (Some value)\<close>, or \<open>Inr None\<close> for \<open>continue\<close>.
\<close>

definition resolve_field ::
  "builder \<Rightarrow> env \<Rightarrow> config \<Rightarrow> string \<Rightarrow> (string \<times> val) list \<Rightarrow> field
     \<Rightarrow> val option result option" where
  "resolve_field bv e cfg data_class data fld =
     (let field_type' = field_type fld; name = field_name fld in
      case lookup_path cfg data_class name of
        Some path_or_paths \<Rightarrow>
          if path_or_paths = PStr ''SKIPME'' then Some (Inr None)
          else
            (case get_deep_value data path_or_paths (path_default fld path_or_paths data) of
               Inl er \<Rightarrow> Some (Inl er)
             | Inr deep_field_data \<Rightarrow>
                 bind_res (bv field_type' deep_field_data) (\<lambda>v. Some (Inr (Some v))))
      | None \<Rightarrow>
          (case map_of data name of
             Some field_data \<Rightarrow>
               (case bv field_type' field_data of
                  None \<Rightarrow> None
                | Some (Inl er) \<Rightarrow>
                    Some (Inl (if is_dacite_field_error er then update_path name er else er))
                | Some (Inr v) \<Rightarrow>
                    if check_types cfg then
                      (case check_field_type e cfg name field_type' v of
                         Inl er \<Rightarrow> Some (Inl er)
                       | Inr _ \<Rightarrow> Some (Inr (Some v)))
                    else Some (Inr (Some v)))
           | None \<Rightarrow>
               (case get_default_value_for_field fld field_type' of
                  Inr v \<Rightarrow> Some (Inr (Some v))
                | Inl _ \<Rightarrow>
                    if \<not> field_init fld then Some (Inr None)
                    else Some (Inl (MissingValueError (Some name))))))"

text \<open>
  The whole loop, with \<open>init_values\<close> and \<open>post_init_values\<close> as accumulators.
\<close>

fun from_dict_fields ::
  "builder \<Rightarrow> env \<Rightarrow> config \<Rightarrow> string \<Rightarrow> bool \<Rightarrow> (string \<times> val) list \<Rightarrow> field list
     \<Rightarrow> (string \<times> val) list \<Rightarrow> (string \<times> val) list
     \<Rightarrow> ((string \<times> val) list \<times> (string \<times> val) list) result option" where
  "from_dict_fields bv e cfg data_class frozen data [] init_values post_init_values =
     Some (Inr (init_values, post_init_values))"
| "from_dict_fields bv e cfg data_class frozen data (fld # flds) init_values post_init_values =
     bind_res (resolve_field bv e cfg data_class data fld) (\<lambda>r.
       case r of
         None \<Rightarrow> from_dict_fields bv e cfg data_class frozen data flds init_values post_init_values
       | Some v \<Rightarrow>
           if field_init fld then
             from_dict_fields bv e cfg data_class frozen data flds
               (dict_set (field_name fld) v init_values) post_init_values
           else if \<not> frozen then
             from_dict_fields bv e cfg data_class frozen data flds
               init_values (dict_set (field_name fld) v post_init_values)
           else
             from_dict_fields bv e cfg data_class frozen data flds init_values post_init_values)"

text \<open>
  \<open>data_class(**init_values)\<close>, the \<open>__init__\<close> that \<open>@dataclass\<close> generates: a parameter
  that is not passed takes the field's default or the result of its default factory, and
  is a TypeError without one; a field with \<open>init=False\<close> is set from its default, if any;
  an \<open>InitVar\<close> is a parameter and no attribute.
\<close>

fun init_attrs :: "field list \<Rightarrow> (string \<times> val) list \<Rightarrow> (string \<times> val) list result" where
  "init_attrs [] kwargs = Inr []"
| "init_attrs (fld # flds) kwargs =
     (let given = (if field_init fld then map_of kwargs (field_name fld) else None);
          dflt = (case field_default fld of Some d \<Rightarrow> Some d | None \<Rightarrow> field_default_factory fld)
      in case (case given of Some v \<Rightarrow> Some v | None \<Rightarrow> dflt) of
           None \<Rightarrow>
             if field_init fld
             then Inl (TypeError ''__init__() missing required positional argument'')
             else init_attrs flds kwargs
         | Some v \<Rightarrow>
             (case init_attrs flds kwargs of
                Inl er \<Rightarrow> Inl er
              | Inr attrs \<Rightarrow>
                  Inr (if is_init_var (field_type fld) then attrs else (field_name fld, v) # attrs)))"

text \<open>\<open>for key, value in post_init_values.items(): setattr(instance, key, value)\<close>.\<close>

fun set_attrs :: "(string \<times> val) list \<Rightarrow> (string \<times> val) list \<Rightarrow> (string \<times> val) list" where
  "set_attrs [] attrs = attrs"
| "set_attrs ((key, v) # kvs) attrs = set_attrs kvs (dict_set key v attrs)"

definition instantiate ::
  "string \<Rightarrow> dataclass \<Rightarrow> (string \<times> val) list \<Rightarrow> (string \<times> val) list \<Rightarrow> val result" where
  "instantiate data_class dc init_values post_init_values =
     (case init_attrs (dc_fields dc) init_values of
        Inl er \<Rightarrow> Inl er
      | Inr attrs \<Rightarrow> Inr (VObj data_class (set_attrs post_init_values attrs)))"

definition from_dict_with ::
  "builder \<Rightarrow> env \<Rightarrow> config \<Rightarrow> string \<Rightarrow> (string \<times> val) list \<Rightarrow> val result option" where
  "from_dict_with bv e cfg data_class data =
     (case classes e data_class of
        None \<Rightarrow> Some (Inl (TypeError ''not a dataclass''))
      | Some dc \<Rightarrow>
          (case dc_name_error dc of
             Some msg \<Rightarrow> Some (Inl (ForwardReferenceError msg))
           | None \<Rightarrow>
               (let extra_fields = set (map fst data) - set (map field_name (dc_fields dc)) in
                if strict cfg \<and> extra_fields \<noteq> {} then Some (Inl (UnexpectedDataError extra_fields))
                else
                  bind_res (from_dict_fields bv e cfg data_class (dc_frozen dc) data (dc_fields dc) [] [])
                    (\<lambda>(init_values, post_init_values).
                       Some (instantiate data_class dc init_values post_init_values)))))"

section \<open>\<open>_build_value\<close>\<close>

text \<open>
  The casting pass: the first entry of \<open>config.cast\<close> with \<open>is_subclass(type_, cast_type)\<close>
  decides; \<open>None\<close> when no entry applies (\<open>casted\<close> stays false).
\<close>

definition cast_value :: "env \<Rightarrow> config \<Rightarrow> ty \<Rightarrow> val \<Rightarrow> val result option" where
  "cast_value e cfg type' data =
     (case find (is_subclass e type') (cast cfg) of
        None \<Rightarrow> None
      | Some _ \<Rightarrow>
          Some (if is_generic_collection type' then call_origin (extract_origin_collection type') data
                else (case type' of
                        TCls c \<Rightarrow> call_type e c data
                      | _ \<Rightarrow> Inl (TypeError ''object is not callable''))))"

definition follow_hints :: "env \<Rightarrow> config \<Rightarrow> ty \<Rightarrow> val \<Rightarrow> val result" where
  "follow_hints e cfg type' data =
     (if follow_type_hints cfg \<and> type_of data = CStr \<and> type' \<noteq> TCls CStr \<and> data \<noteq> VNone then
        (if type' = TCls CInt then call_type e CInt data
         else if type' = TCls CFloat then call_type e CFloat data
         else Inr data)
      else Inr data)"

text \<open>
  The chain \<open>if is_union(type_) ... elif is_generic_collection(type_) ... elif
  is_dataclass(type_) and isinstance(data, Mapping)\<close>; without a branch the data stays.
\<close>

definition dispatch :: "builder \<Rightarrow> env \<Rightarrow> config \<Rightarrow> ty \<Rightarrow> val \<Rightarrow> val result option" where
  "dispatch bv e cfg type' data1 =
     (if is_union type' then build_value_for_union bv e cfg type' data1
      else if is_generic_collection type' then build_value_for_collection bv type' data1
      else (case (type', data1) of
              (TCls (CData n), VDict kvs) \<Rightarrow>
                if classes e n \<noteq> None then from_dict_with bv e cfg n kvs
                else Some (Inr data1)
            | _ \<Rightarrow> Some (Inr data1)))"

definition build_value_with :: "builder \<Rightarrow> env \<Rightarrow> config \<Rightarrow> ty \<Rightarrow> val \<Rightarrow> val result option" where
  "build_value_with bv e cfg type0 data0 =
     (let type' = (if is_init_var type0 then extract_init_var type0 else type0) in
      case (case map_of (type_hooks cfg) type' of Some hook \<Rightarrow> hook data0 | None \<Rightarrow> Inr data0) of
        Inl er \<Rightarrow> Some (Inl er)
      | Inr data1 \<Rightarrow>
          if is_optional type' \<and> data1 = VNone then Some (Inr data1)
          else
            bind_res (dispatch bv e cfg type' data1)
              (\<lambda>data2.
                 case cast_value e cfg type' data2 of
                   Some r \<Rightarrow> Some r
                 | None \<Rightarrow> Some (follow_hints e cfg type' data2)))"

text \<open>
  The recursion closed: \<open>build_value n\<close> allows \<open>n\<close> nested calls of \<open>_build_value\<close>, and
  \<open>from_dict n\<close> is a top-level call whose fields are built with \<open>build_value n\<close>.
\<close>

fun build_value :: "nat \<Rightarrow> env \<Rightarrow> config \<Rightarrow> ty \<Rightarrow> val \<Rightarrow> val result option" where
  "build_value 0 e cfg type' data = None"
| "build_value (Suc n) e cfg type' data = build_value_with (build_value n e cfg) e cfg type' data"

definition from_dict :: "nat \<Rightarrow> env \<Rightarrow> config \<Rightarrow> string \<Rightarrow> (string \<times> val) list \<Rightarrow> val result option" where
  "from_dict n e cfg data_class data = from_dict_with (build_value n e cfg) e cfg data_class data"

section \<open>Comparing builders\<close>

text \<open>
  One function is below another when every result of the first is a result of the
  second: what a smaller depth bound returns, a larger one returns too.
\<close>

definition below :: "('a \<Rightarrow> 'b option) \<Rightarrow> ('a \<Rightarrow> 'b option) \<Rightarrow> bool" where
  "below f g = (\<forall>x r. f x = Some r \<longrightarrow> g x = Some r)"

definition below2 :: "builder \<Rightarrow> builder \<Rightarrow> bool" where
  "below2 f g = (\<forall>t x r. f t x = Some r \<longrightarrow> g t x = Some r)"

section \<open>What a path denotes\<close>

text \<open>
  The value that a list of segments denotes in nested maps, stated without any default:
  every segment has to be a key of the map reached so far, so \<open>None\<close> covers both a
  missing segment and a segment looked up in something that is not a map.
\<close>

fun descend :: "string list \<Rightarrow> val \<Rightarrow> val option" where
  "descend [] v = Some v"
| "descend (k # p) v =
     (case v of
        VDict d \<Rightarrow> (case map_of d k of None \<Rightarrow> None | Some v' \<Rightarrow> descend p v')
      | _ \<Rightarrow> None)"

section \<open>Example inputs\<close>

definition nested_example :: "(string \<times> val) list" where
  "nested_example = [(''a'', VDict [(''b'', VInt 2)])]"

definition two_key_example :: "(string \<times> val) list" where
  "two_key_example = [(''str'', VStr ''val''), (''int'', VInt (- 1))]"

text \<open>A field without default that takes part in construction, and a plain dataclass.\<close>

definition required_field :: "string \<Rightarrow> ty \<Rightarrow> field" where
  "required_field n t =
     \<lparr>field_name = n, field_type = t, field_init = True,
      field_default = None, field_default_factory = None\<rparr>"

definition plain_dataclass :: "field list \<Rightarrow> dataclass" where
  "plain_dataclass fs = \<lparr>dc_fields = fs, dc_frozen = False, dc_bases = [], dc_name_error = None\<rparr>"

text \<open>
  The dataclasses of the examples:
  \<open>X(s: Optional[str])\<close>, \<open>S(s: str)\<close>, \<open>I(i: int)\<close>, \<open>Y(x: I)\<close>,
  \<open>L(xs: List[int])\<close>, \<open>B(xs: List[bool])\<close>, \<open>U(u: Union[int, str])\<close>, and
  \<open>F(y: "Y")\<close> whose forward reference is not resolved, and
  \<open>SD(i: int, s: str = 'dflt')\<close>.
  No example calls a class, so \<open>call_type\<close> is a stub.
\<close>

definition example_classes :: "(string \<times> dataclass) list" where
  "example_classes =
     [(''X'', plain_dataclass [required_field ''s'' (TUnion [TCls CStr, TCls CNone])]),
      (''S'', plain_dataclass [required_field ''s'' (TCls CStr)]),
      (''I'', plain_dataclass [required_field ''i'' (TCls CInt)]),
      (''Y'', plain_dataclass [required_field ''x'' (TCls (CData ''I''))]),
      (''L'', plain_dataclass [required_field ''xs'' (TList (TCls CInt))]),
      (''B'', plain_dataclass [required_field ''xs'' (TList (TCls CBool))]),
      (''U'', plain_dataclass [required_field ''u'' (TUnion [TCls CInt, TCls CStr])]),
      (''F'', (plain_dataclass [required_field ''y'' (TCls (CData ''Y''))])
                \<lparr>dc_name_error := Some ''name 'Y' is not defined''\<rparr>),
      (''SD'', plain_dataclass
                 [required_field ''i'' (TCls CInt),
                  (required_field ''s'' (TCls CStr))\<lparr>field_default := Some (VStr ''dflt'')\<rparr>])]"

definition example_env :: env where
  "example_env =
     \<lparr>classes = map_of example_classes,
      call_type = (\<lambda>c v. Inl (Unmodelled ''call of a class''))\<rparr>"

text \<open>\<open>str.lower\<close> on ASCII letters, the hook of the type-hook tests.\<close>

definition lower_char :: "char \<Rightarrow> char" where
  "lower_char c =
     (case map_of (zip ''ABCDEFGHIJKLMNOPQRSTUVWXYZ'' ''abcdefghijklmnopqrstuvwxyz'') c of
        Some l \<Rightarrow> l
      | None \<Rightarrow> c)"

definition str_lower :: "val \<Rightarrow> val result" where
  "str_lower v =
     (case v of
        VStr s \<Rightarrow> Inr (VStr (map lower_char s))
      | _ \<Rightarrow> Inl (TypeError ''descriptor lower requires a str object''))"

text \<open>Configurations of the examples: a skipped field, and two remapped fields.\<close>

definition skip_x :: config where
  "skip_x =
     default_config\<lparr>paths := [(''X'', [(''s'', PStr ''SKIPME'')]),
                                (''SD'', [(''s'', PStr ''SKIPME'')])]\<rparr>"

definition path_s :: config where
  "path_s = default_config\<lparr>paths := [(''S'', [(''s'', PStr ''foo'')]), (''Y'', [(''x'', PStr ''xr'')])]\<rparr>"

section \<open>Properties of the path navigator\<close>

lemma split_dot_nonempty: "split_dot s \<noteq> []"
  by (induction s) (auto split: list.splits)

lemma descend_append:
  "descend (p @ q) v = (case descend p v of None \<Rightarrow> None | Some w \<Rightarrow> descend q w)"
  by (induction p arbitrary: v) (auto split: val.splits option.splits)

lemma get'_found:
  "p \<noteq> [] \<Longrightarrow> descend p (VDict d) = Some v \<Longrightarrow> get' p d dflt = Inr v"
proof (induction p d dflt rule: get'.induct)
  case (1 d dflt)
  then show ?case by simp
next
  case (2 k d dflt)
  then show ?case by (simp split: option.splits)
next
  case (3 k v va d dflt)
  then show ?case by (auto split: option.splits val.splits)
qed

lemma get'_missing:
  "descend pre (VDict d) = Some (VDict m) \<Longrightarrow> map_of m k = None \<Longrightarrow>
   get' (pre @ k # post) d dflt = raise_or_return dflt"
proof (induction pre arbitrary: d)
  case Nil
  then show ?case by (cases post) simp_all
next
  case (Cons a pre)
  then obtain d' where a: "map_of d a = Some (VDict d')" and r: "descend pre (VDict d') = Some (VDict m)"
    by (cases pre) (auto split: option.splits val.splits)
  have "get' (a # pre @ k # post) d dflt = get' (pre @ k # post) d' dflt"
    using a by (cases "pre @ k # post") simp_all
  with Cons.IH [OF r Cons.prems(2)] show ?case by simp
qed

lemma get'_not_a_map:
  "descend (pre @ [k]) (VDict d) = Some v \<Longrightarrow> \<forall>m. v \<noteq> VDict m \<Longrightarrow> post \<noteq> [] \<Longrightarrow>
   get' (pre @ k # post) d dflt = Inl (KeyError (''element is not a dict: '' @ k))"
proof (induction pre arbitrary: d)
  case Nil
  then show ?case by (cases post) (auto split: option.splits val.splits)
next
  case (Cons a pre)
  then obtain d' where a: "map_of d a = Some (VDict d')" and r: "descend (pre @ [k]) (VDict d') = Some v"
    by (cases pre) (auto split: option.splits val.splits)
  have "get' (a # pre @ k # post) d dflt = get' (pre @ k # post) d' dflt"
    using a by (cases "pre @ k # post") simp_all
  with Cons.IH [OF r Cons.prems(2,3)] show ?case by simp
qed

lemma get'_fails:
  "p \<noteq> [] \<Longrightarrow> descend p (VDict d) = None \<Longrightarrow> \<exists>e. get' p d (VExc e0) = Inl e"
proof (induction p d "VExc e0" rule: get'.induct)
  case (1 d)
  then show ?case by simp
next
  case (2 k d)
  then show ?case by (simp add: raise_or_return_def split: option.splits)
next
  case (3 k v va d)
  then show ?case by (auto simp: raise_or_return_def split: option.splits val.splits)
qed


lemma raise_or_return_cases:
  "(\<forall>e. dflt = VExc e \<longrightarrow> raise_or_return dflt = Inl e) \<and>
   ((\<forall>e. dflt \<noteq> VExc e) \<longrightarrow> raise_or_return dflt = Inr dflt)"
  by (cases dflt) (simp_all add: raise_or_return_def)

text \<open>
  Claim C6. With \<open>segs = path.split('.')\<close>: when every segment is present (each non-final
  one holding a map), \<open>get\<close> returns the value at the final segment. When a segment,
  intermediate or final, is missing from the map reached so far, \<open>get\<close> raises the default
  if the default is an exception and returns the default otherwise. When a non-final
  segment holds a value that is not a map, \<open>get\<close> raises KeyError whatever the default is.
\<close>

theorem get_outcomes:
  "(\<forall>v. descend (split_dot path) (VDict d) = Some v \<longrightarrow> get path d dflt = Inr v)
   \<and> (\<forall>pre k post m.
         split_dot path = pre @ k # post \<and> descend pre (VDict d) = Some (VDict m)
           \<and> map_of m k = None
         \<longrightarrow> (\<forall>e. dflt = VExc e \<longrightarrow> get path d dflt = Inl e)
             \<and> ((\<forall>e. dflt \<noteq> VExc e) \<longrightarrow> get path d dflt = Inr dflt))
   \<and> (\<forall>pre k post v.
         split_dot path = pre @ k # post \<and> post \<noteq> []
           \<and> descend (pre @ [k]) (VDict d) = Some v \<and> (\<forall>m. v \<noteq> VDict m)
         \<longrightarrow> get path d dflt = Inl (KeyError (''element is not a dict: '' @ k)))"
proof (intro conjI allI impI)
  fix v assume "descend (split_dot path) (VDict d) = Some v"
  then show "get path d dflt = Inr v"
    unfolding get_def by (rule get'_found [OF split_dot_nonempty])
next
  fix pre k post m e
  assume h: "split_dot path = pre @ k # post \<and> descend pre (VDict d) = Some (VDict m)
    \<and> map_of m k = None" and e: "dflt = VExc e"
  from h have "get path d dflt = raise_or_return dflt"
    unfolding get_def by (simp add: get'_missing)
  with e show "get path d dflt = Inl e" by (simp add: raise_or_return_def)
next
  fix pre k post m
  assume h: "split_dot path = pre @ k # post \<and> descend pre (VDict d) = Some (VDict m)
    \<and> map_of m k = None" and e: "\<forall>e. dflt \<noteq> VExc e"
  from h have "get path d dflt = raise_or_return dflt"
    unfolding get_def by (simp add: get'_missing)
  with e raise_or_return_cases [of dflt] show "get path d dflt = Inr dflt" by simp
next
  fix pre k post v
  assume h: "split_dot path = pre @ k # post \<and> post \<noteq> []
    \<and> descend (pre @ [k]) (VDict d) = Some v \<and> (\<forall>m. v \<noteq> VDict m)"
  then show "get path d dflt = Inl (KeyError (''element is not a dict: '' @ k))"
    unfolding get_def by (simp add: get'_not_a_map)
qed


theorem get_outcomes_witness:
  "get ''a.b'' nested_example (VStr ''foo'') = Inr (VInt 2)
   \<and> get ''a.c'' nested_example (VStr ''foo'') = Inr (VStr ''foo'')
   \<and> get ''a.c'' nested_example (VExc (ValueError ''foo'' [])) = Inl (ValueError ''foo'' [])
   \<and> get ''a.b.c'' nested_example (VStr ''foo'') = Inl (KeyError ''element is not a dict: b'')"
proof (intro conjI)
  show "get ''a.b'' nested_example (VStr ''foo'') = Inr (VInt 2)"
    using get_outcomes [of "''a.b''" nested_example "VStr ''foo''"]
    by (simp add: nested_example_def)
  have m: "split_dot ''a.c'' = [''a''] @ ''c'' # []
      \<and> descend [''a''] (VDict nested_example) = Some (VDict [(''b'', VInt 2)])
      \<and> map_of [(''b'', VInt 2)] ''c'' = None"
    by (simp add: nested_example_def)
  from get_outcomes [of "''a.c''" nested_example "VStr ''foo''"] m
  show "get ''a.c'' nested_example (VStr ''foo'') = Inr (VStr ''foo'')"
    by blast
  from get_outcomes [of "''a.c''" nested_example "VExc (ValueError ''foo'' [])"] m
  show "get ''a.c'' nested_example (VExc (ValueError ''foo'' [])) = Inl (ValueError ''foo'' [])"
    by blast
  have n: "split_dot ''a.b.c'' = [''a''] @ ''b'' # [''c''] \<and> [''c''] \<noteq> []
      \<and> descend ([''a''] @ [''b'']) (VDict nested_example) = Some (VInt 2)
      \<and> (\<forall>m. VInt 2 \<noteq> VDict m)"
    by (simp add: nested_example_def)
  from get_outcomes [of "''a.b.c''" nested_example "VStr ''foo''"] n
  have "get ''a.b.c'' nested_example (VStr ''foo'') = Inl (KeyError (''element is not a dict: '' @ ''b''))"
    by blast
  then show "get ''a.b.c'' nested_example (VStr ''foo'') = Inl (KeyError ''element is not a dict: b'')"
    by simp
qed

lemma get_first_skips:
  "\<forall>q \<in> set pre. descend (split_dot q) (VDict data) = None \<Longrightarrow>
   get_first (pre @ rest) data = get_first rest data"
proof (induction pre)
  case Nil
  then show ?case by simp
next
  case (Cons q pre)
  then have "descend (split_dot q) (VDict data) = None" by simp
  from get'_fails [OF split_dot_nonempty this]
  obtain e where "get q data (VExc (KeyError [])) = Inl e"
    unfolding get_def by blast
  with Cons show ?case by simp
qed

text \<open>
  Claim C7. For a list of candidate paths, \<open>_get_deep_value\<close> returns the value of the
  first candidate that resolves: the candidates before it may fail in any way (missing
  segment or non-map intermediate), and the candidates after it are not looked at, even
  if they resolve too. When no candidate resolves it raises the caller's default if that
  is an exception and returns it otherwise.
\<close>

theorem get_deep_value_first_resolvable:
  "(\<forall>pre p post v.
       candidates = pre @ p # post
         \<and> (\<forall>q \<in> set pre. descend (split_dot q) (VDict data) = None)
         \<and> descend (split_dot p) (VDict data) = Some v
       \<longrightarrow> get_deep_value data (PList candidates) dflt = Inr v)
   \<and> ((\<forall>q \<in> set candidates. descend (split_dot q) (VDict data) = None)
       \<longrightarrow> (\<forall>e. dflt = VExc e \<longrightarrow> get_deep_value data (PList candidates) dflt = Inl e)
           \<and> ((\<forall>e. dflt \<noteq> VExc e) \<longrightarrow> get_deep_value data (PList candidates) dflt = Inr dflt))"
proof (intro conjI allI impI)
  fix pre p post v
  assume h: "candidates = pre @ p # post
         \<and> (\<forall>q \<in> set pre. descend (split_dot q) (VDict data) = None)
         \<and> descend (split_dot p) (VDict data) = Some v"
  then have "get p data (VExc (KeyError [])) = Inr v"
    unfolding get_def by (simp add: get'_found [OF split_dot_nonempty])
  then have "get_first (p # post) data = Some v" by simp
  with h have "get_first candidates data = Some v" by (simp add: get_first_skips)
  then show "get_deep_value data (PList candidates) dflt = Inr v"
    by (simp add: get_deep_value_def)
next
  fix e
  assume h: "\<forall>q \<in> set candidates. descend (split_dot q) (VDict data) = None" and e: "dflt = VExc e"
  from h have "get_first (candidates @ []) data = get_first [] data" by (rule get_first_skips)
  then show "get_deep_value data (PList candidates) dflt = Inl e"
    using e by (simp add: get_deep_value_def raise_or_return_def)
next
  assume h: "\<forall>q \<in> set candidates. descend (split_dot q) (VDict data) = None" and e: "\<forall>e. dflt \<noteq> VExc e"
  from h have "get_first (candidates @ []) data = get_first [] data" by (rule get_first_skips)
  then show "get_deep_value data (PList candidates) dflt = Inr dflt"
    using e raise_or_return_cases [of dflt] by (simp add: get_deep_value_def)
qed

theorem get_deep_value_first_resolvable_witness:
  "get_deep_value two_key_example (PList [''baz.blat'', ''int'', ''str'']) VNone = Inr (VInt (- 1))
   \<and> get_deep_value two_key_example (PList [''baz.blat'', ''foo.bar'']) (VInt 7) = Inr (VInt 7)
   \<and> get_deep_value two_key_example (PList [''baz.blat'', ''foo.bar''])
        (VExc (DefaultValueNotFoundError (Some (PList [''baz.blat'', ''foo.bar''], VDict two_key_example))))
      = Inl (DefaultValueNotFoundError (Some (PList [''baz.blat'', ''foo.bar''], VDict two_key_example)))"
proof (intro conjI)
  have a: "[''baz.blat'', ''int'', ''str''] = [''baz.blat''] @ ''int'' # [''str'']
     \<and> (\<forall>q \<in> set [''baz.blat'']. descend (split_dot q) (VDict two_key_example) = None)
     \<and> descend (split_dot ''int'') (VDict two_key_example) = Some (VInt (- 1))"
    by (simp add: two_key_example_def)
  from get_deep_value_first_resolvable [of "[''baz.blat'', ''int'', ''str'']" two_key_example VNone] a
  show "get_deep_value two_key_example (PList [''baz.blat'', ''int'', ''str'']) VNone = Inr (VInt (- 1))"
    by blast
  have b: "\<forall>q \<in> set [''baz.blat'', ''foo.bar'']. descend (split_dot q) (VDict two_key_example) = None"
    by (simp add: two_key_example_def)
  from get_deep_value_first_resolvable [of "[''baz.blat'', ''foo.bar'']" two_key_example "VInt 7"] b
  show "get_deep_value two_key_example (PList [''baz.blat'', ''foo.bar'']) (VInt 7) = Inr (VInt 7)"
    by blast
  from get_deep_value_first_resolvable [of "[''baz.blat'', ''foo.bar'']" two_key_example
     "VExc (DefaultValueNotFoundError (Some (PList [''baz.blat'', ''foo.bar''], VDict two_key_example)))"] b
  show "get_deep_value two_key_example (PList [''baz.blat'', ''foo.bar''])
        (VExc (DefaultValueNotFoundError (Some (PList [''baz.blat'', ''foo.bar''], VDict two_key_example))))
      = Inl (DefaultValueNotFoundError (Some (PList [''baz.blat'', ''foo.bar''], VDict two_key_example)))"
    by blast
qed

section \<open>Properties of the value builder and the object assembler\<close>

lemmas ex_simps = example_env_def example_classes_def plain_dataclass_def required_field_def
  default_config_def

lemmas core_simps = from_dict_def from_dict_with_def resolve_field_def lookup_path_def
  build_value_with_def dispatch_def build_value_for_union_def bind_res_def is_optional_def
  check_field_type_def instantiate_def cast_value_def follow_hints_def
  get_default_value_for_field_def

lemma union_loop_no_candidate:
  "\<forall>t \<in> set types. (\<exists>er. bv t data = Some (Inl er))
       \<or> (\<exists>v. bv t data = Some (Inr v) \<and> accepts e cfg v t = Inr False) \<Longrightarrow>
   union_loop bv e cfg data types union_matches = Some (Inr (Inl union_matches))"
  by (induction types) auto

text \<open>
  Claim C2, on the code. In strict mode, outside the Optional fast path, when no member
  is accepted (for each member \<open>_build_value\<close> raises, or its value fails the acceptance
  test), \<open>union_matches\<close> is empty and \<open>union_matches.popitem()\<close> raises KeyError: the
  resolver never reaches the no-candidate rule, whatever \<open>check_types\<close> is.
\<close>

theorem strict_union_no_candidate:
  assumes "strict_unions_match cfg"
    and "\<not> (is_optional u \<and> length (extract_generic u) = 2)"
    and "\<forall>t \<in> set (extract_generic u). (\<exists>er. bv t data = Some (Inl er))
           \<or> (\<exists>v. bv t data = Some (Inr v) \<and> accepts e cfg v t = Inr False)"
  shows "build_value_for_union bv e cfg u data
           = Some (Inl (KeyError ''popitem(): dictionary is empty''))"
proof -
  have "union_loop bv e cfg data (extract_generic u) [] = Some (Inr (Inl []))"
    using assms(3) by (rule union_loop_no_candidate)
  with assms(1,2) show ?thesis
    by (auto simp: build_value_for_union_def bind_res_def popitem_value_def Let_def)
qed

theorem strict_union_no_candidate_witness:
  "build_value_for_union (build_value (Suc 0) example_env (default_config\<lparr>strict_unions_match := True\<rparr>))
      example_env (default_config\<lparr>strict_unions_match := True\<rparr>)
      (TUnion [TCls CInt, TCls CStr]) (VList [])
     = Some (Inl (KeyError ''popitem(): dictionary is empty''))
   \<and> from_dict (Suc (Suc 0)) example_env (default_config\<lparr>strict_unions_match := True\<rparr>)
        ''U'' [(''u'', VList [])]
     = Some (Inl (KeyError ''popitem(): dictionary is empty''))"
proof
  let ?cfg = "default_config\<lparr>strict_unions_match := True\<rparr>"
  have a: "strict_unions_match ?cfg" by (simp add: default_config_def)
  have b: "\<not> (is_optional (TUnion [TCls CInt, TCls CStr])
              \<and> length (extract_generic (TUnion [TCls CInt, TCls CStr])) = 2)"
    by (simp add: is_optional_def)
  have c: "\<forall>t \<in> set (extract_generic (TUnion [TCls CInt, TCls CStr])).
             (\<exists>er. build_value (Suc 0) example_env ?cfg t (VList []) = Some (Inl er))
           \<or> (\<exists>v. build_value (Suc 0) example_env ?cfg t (VList []) = Some (Inr v)
                 \<and> accepts example_env ?cfg v t = Inr False)"
    by (simp add: ex_simps core_simps accepts_def isinstance_def superclasses_def)
  show u: "build_value_for_union (build_value (Suc 0) example_env ?cfg) example_env ?cfg
      (TUnion [TCls CInt, TCls CStr]) (VList [])
     = Some (Inl (KeyError ''popitem(): dictionary is empty''))"
    by (rule strict_union_no_candidate
          [where bv = "build_value (Suc 0) example_env ?cfg" and e = example_env, OF a b c])
  have "from_dict (Suc (Suc 0)) example_env ?cfg ''U'' [(''u'', VList [])]
      = (case build_value_for_union (build_value (Suc 0) example_env ?cfg) example_env ?cfg
      (TUnion [TCls CInt, TCls CStr]) (VList []) of None \<Rightarrow> None | Some (Inl er) \<Rightarrow> Some (Inl er)
        | Some (Inr v) \<Rightarrow> Some (Inr (VObj ''U'' [(''u'', v)])))"
    unfolding u
    by (simp add: ex_simps core_simps accepts_def isinstance_def superclasses_def popitem_value_def)
  then show "from_dict (Suc (Suc 0)) example_env ?cfg ''U'' [(''u'', VList [])]
     = Some (Inl (KeyError ''popitem(): dictionary is empty''))"
    unfolding u by simp
qed

lemma build_items_all:
  "list_all2 (\<lambda>x y. b x = Some (Inr y)) xs ys \<Longrightarrow> build_items b xs = Some (Inr ys)"
  by (induction rule: list_all2_induct) (simp_all add: bind_res_def)

theorem collection_counterexample:
  "build_value_for_collection (build_value (Suc 0) example_env default_config)
      (TList (TCls CInt)) (VTuple [VInt 1, VInt 2]) = Some (Inr (VTuple [VInt 1, VInt 2]))
   \<and> type_of (VTuple [VInt 1, VInt 2]) \<noteq> extract_origin_collection (TList (TCls CInt))"
  by (simp add: build_value_for_collection_def rebuild_collection_def is_tuple_type_def
      is_collection_type_def container_class_def item_builder_def
      ex_simps core_simps)

text \<open>
  Claim C3, as amended. For a target \<open>List[T]\<close> or \<open>Set[T]\<close> and a raw list or tuple whose
  elements all build against \<open>T\<close>, the reconstructor returns the built elements in a
  container of the raw value's class: a raw list gives a list, a raw tuple gives a
  tuple.
\<close>

theorem collection_keeps_raw_container:
  assumes "collection = TList t \<or> collection = TSet t"
    and "list_all2 (\<lambda>x y. bv t x = Some (Inr y)) xs ys"
  shows "build_value_for_collection bv collection (VList xs) = Some (Inr (VList ys))
       \<and> build_value_for_collection bv collection (VTuple xs) = Some (Inr (VTuple ys))"
proof -
  have b: "item_builder bv (extract_generic collection) 0 = bv t"
    using assms(1) by (auto simp: item_builder_def)
  have c: "is_collection_type collection" "\<not> is_tuple_type collection"
    using assms(1) by (auto simp: is_collection_type_def is_tuple_type_def container_class_def)
  from build_items_all [OF assms(2)] b c show ?thesis
    by (simp add: build_value_for_collection_def rebuild_collection_def bind_res_def)
qed

theorem collection_keeps_raw_container_witness:
  "build_value_for_collection (build_value (Suc 0) example_env default_config)
      (TList (TCls CInt)) (VList [VInt 1, VInt 2]) = Some (Inr (VList [VInt 1, VInt 2]))
   \<and> build_value_for_collection (build_value (Suc 0) example_env default_config)
      (TList (TCls CInt)) (VTuple [VInt 1, VInt 2]) = Some (Inr (VTuple [VInt 1, VInt 2]))"
proof -
  have a: "TList (TCls CInt) = TList (TCls CInt) \<or> TList (TCls CInt) = TSet (TCls CInt)" by simp
  have b: "list_all2 (\<lambda>x y. build_value (Suc 0) example_env default_config (TCls CInt) x = Some (Inr y))
     [VInt 1, VInt 2] [VInt 1, VInt 2]"
    by (simp add: ex_simps core_simps)
  from collection_keeps_raw_container
    [where bv = "build_value (Suc 0) example_env default_config" and t = "TCls CInt", OF a b]
  show ?thesis .
qed

theorem skip_sentinel_counterexample:
  "from_dict 0 example_env (default_config\<lparr>paths := [(''X'', [(''s'', PStr ''SKIPME'')])]\<rparr>) ''X'' []
     = Some (Inl (TypeError ''__init__() missing required positional argument''))
   \<and> from_dict 0 example_env default_config ''X'' [] = Some (Inr (VObj ''X'' [(''s'', VNone)]))
   \<and> from_dict 0 example_env (default_config\<lparr>paths := [(''I'', [(''i'', PStr ''SKIPME'')])]\<rparr>) ''I'' []
     = Some (Inl (TypeError ''__init__() missing required positional argument''))
   \<and> from_dict 0 example_env default_config ''I'' [] = Some (Inl (MissingValueError (Some ''i'')))"
  by (simp add: ex_simps core_simps)

lemma map_of_dict_set:
  "map_of (dict_set k v kvs) k' = (if k' = k then Some v else map_of kvs k')"
  by (induction kvs) auto

lemma resolve_field_skip:
  "lookup_path cfg data_class (field_name fld) = Some (PStr ''SKIPME'') \<Longrightarrow>
   resolve_field bv e cfg data_class data fld = Some (Inr None)"
  by (simp add: resolve_field_def)

lemma from_dict_fields_skip_filter:
  assumes "lookup_path cfg data_class nm = Some (PStr ''SKIPME'')"
  shows "from_dict_fields bv e cfg data_class frozen data flds init_values post_init_values
       = from_dict_fields bv e cfg data_class frozen data
           (filter (\<lambda>g. field_name g \<noteq> nm) flds) init_values post_init_values"
proof (induction flds arbitrary: init_values post_init_values frozen)
  case Nil
  show ?case by simp
next
  case (Cons g flds)
  show ?case
  proof (cases "field_name g = nm")
    case True
    with assms have "resolve_field bv e cfg data_class data g = Some (Inr None)"
      by (simp add: resolve_field_skip)
    with True Cons show ?thesis by (simp add: bind_res_def)
  next
    case False
    with Cons show ?thesis by (simp cong: if_cong option.case_cong)
  qed
qed

lemma from_dict_fields_skip_omits:
  assumes "lookup_path cfg data_class nm = Some (PStr ''SKIPME'')"
  shows "from_dict_fields bv e cfg data_class frozen data flds iv pv = Some (Inr (iv', pv')) \<Longrightarrow>
         map_of iv nm = None \<Longrightarrow> map_of pv nm = None \<Longrightarrow>
         map_of iv' nm = None \<and> map_of pv' nm = None"
proof (induction flds arbitrary: iv pv)
  case Nil
  then show ?case by simp
next
  case (Cons g flds)
  show ?case
  proof (cases "field_name g = nm")
    case True
    with assms have "resolve_field bv e cfg data_class data g = Some (Inr None)"
      by (simp add: resolve_field_skip)
    with Cons.prems have "from_dict_fields bv e cfg data_class frozen data flds iv pv
        = Some (Inr (iv', pv'))"
      by (simp add: bind_res_def)
    from Cons.IH [OF this Cons.prems(2,3)] show ?thesis .
  next
    case False
    from Cons.prems(1) obtain r where r: "resolve_field bv e cfg data_class data g = Some (Inr r)"
      by (auto simp: bind_res_def split: option.splits sum.splits)
    show ?thesis
    proof (cases r)
      case None
      with r Cons.prems have "from_dict_fields bv e cfg data_class frozen data flds iv pv
          = Some (Inr (iv', pv'))"
        by (simp add: bind_res_def)
      from Cons.IH [OF this Cons.prems(2,3)] show ?thesis .
    next
      case (Some v)
      have i: "map_of (dict_set (field_name g) v iv) nm = None"
        and p: "map_of (dict_set (field_name g) v pv) nm = None"
        using False Cons.prems(2,3) by (simp_all add: map_of_dict_set)
      consider (a) "field_init g" | (b) "\<not> field_init g" "\<not> frozen" | (c) "\<not> field_init g" "frozen"
        by blast
      then show ?thesis
      proof cases
        case a
        with r Some Cons.prems(1)
        have "from_dict_fields bv e cfg data_class frozen data flds
                (dict_set (field_name g) v iv) pv = Some (Inr (iv', pv'))"
          by (simp add: bind_res_def)
        from Cons.IH [OF this i Cons.prems(3)] show ?thesis .
      next
        case b
        with r Some Cons.prems(1)
        have "from_dict_fields bv e cfg data_class frozen data flds
                iv (dict_set (field_name g) v pv) = Some (Inr (iv', pv'))"
          by (simp add: bind_res_def)
        from Cons.IH [OF this Cons.prems(2) p] show ?thesis .
      next
        case c
        with r Some Cons.prems(1)
        have "from_dict_fields bv e cfg data_class frozen data flds iv pv = Some (Inr (iv', pv'))"
          by (simp add: bind_res_def)
        from Cons.IH [OF this Cons.prems(2,3)] show ?thesis .
      qed
    qed
  qed
qed

lemma init_attrs_missing:
  "fld \<in> set flds \<Longrightarrow> field_init fld \<Longrightarrow> map_of kwargs (field_name fld) = None \<Longrightarrow>
   field_default fld = None \<Longrightarrow> field_default_factory fld = None \<Longrightarrow>
   init_attrs flds kwargs = Inl (TypeError ''__init__() missing required positional argument'')"
proof (induction flds)
  case Nil
  then show ?case by simp
next
  case (Cons g flds)
  show ?case
  proof (cases "g = fld")
    case True
    with Cons.prems show ?thesis by simp
  next
    case False
    with Cons have "init_attrs flds kwargs
        = Inl (TypeError ''__init__() missing required positional argument'')"
      by simp
    then show ?thesis by (simp add: Let_def split: option.splits)
  qed
qed

lemma init_attrs_default:
  "init_attrs flds kwargs = Inr attrs \<Longrightarrow> fld \<in> set flds \<Longrightarrow>
   distinct (map field_name flds) \<Longrightarrow> map_of kwargs (field_name fld) = None \<Longrightarrow>
   field_default fld = Some d \<Longrightarrow> \<not> is_init_var (field_type fld) \<Longrightarrow>
   map_of attrs (field_name fld) = Some d"
proof (induction flds arbitrary: attrs)
  case Nil
  then show ?case by simp
next
  case (Cons g flds)
  show ?case
  proof (cases "g = fld")
    case True
    with Cons.prems show ?thesis
      by (auto simp: Let_def split: option.splits sum.splits if_splits)
  next
    case False
    with Cons.prems have m: "fld \<in> set flds" and n: "field_name g \<noteq> field_name fld"
      and d: "distinct (map field_name flds)"
      by auto
    from Cons.prems(1) obtain attrs' where a: "init_attrs flds kwargs = Inr attrs'"
      and b: "attrs = attrs' \<or> (\<exists>v. attrs = (field_name g, v) # attrs')"
      by (auto simp: Let_def split: option.splits sum.splits if_splits)
    from Cons.IH [OF a m d Cons.prems(4,5,6)] b n show ?thesis by auto
  qed
qed

lemma set_attrs_other:
  "map_of post_init_values nm = None \<Longrightarrow>
   map_of (set_attrs post_init_values attrs) nm = map_of attrs nm"
proof (induction post_init_values arbitrary: attrs)
  case Nil
  show ?case by simp
next
  case (Cons kv kvs)
  then show ?case by (cases kv) (simp add: map_of_dict_set split: if_splits)
qed


lemma from_dict_with_Inr:
  assumes "from_dict_with bv e cfg data_class data = Some (Inr v)"
    and "classes e data_class = Some dc"
  shows "\<exists>iv pv attrs.
           from_dict_fields bv e cfg data_class (dc_frozen dc) data (dc_fields dc) [] []
             = Some (Inr (iv, pv))
         \<and> init_attrs (dc_fields dc) iv = Inr attrs
         \<and> v = VObj data_class (set_attrs pv attrs)"
  using assms
  by (auto simp: from_dict_with_def instantiate_def bind_res_def Let_def
      split: option.splits sum.splits if_splits)

lemma from_dict_with_fields_done:
  assumes "classes e data_class = Some dc"
    and "dc_name_error dc = None"
    and "\<not> (strict cfg \<and> set (map fst data) - set (map field_name (dc_fields dc)) \<noteq> {})"
    and "from_dict_fields bv e cfg data_class (dc_frozen dc) data (dc_fields dc) [] []
           = Some (Inr (iv, pv))"
  shows "from_dict_with bv e cfg data_class data = Some (instantiate data_class dc iv pv)"
  using assms by (auto simp: from_dict_with_def bind_res_def Let_def)

text \<open>
  Claim C4, as amended. A field of a dataclass whose path-spec is the skip sentinel
  \<open>SKIPME\<close> is passed over by the loop (\<open>continue\<close>): its round resolves no default
  and raises nothing, the loop runs as if the field (and any field of that name) were
  not declared, and the \<open>init_values\<close> and \<open>post_init_values\<close> that the loop of
  \<open>from_dict\<close> ends with have no entry under the field's name, whatever the raw map
  holds. The field is thus an omitted constructor argument. When it takes part in
  construction and has neither default nor default factory, \<open>from_dict\<close> returns no
  instance at any depth, and once the other fields are resolved it raises the
  constructor's TypeError, also for an Optional type. When it has an explicit default
  (the field names being distinct), every instance that \<open>from_dict\<close> returns holds that
  default under the field's name.
\<close>

theorem skip_sentinel_skips_field:
  assumes "classes e data_class = Some dc"
    and "fld \<in> set (dc_fields dc)"
    and "lookup_path cfg data_class (field_name fld) = Some (PStr ''SKIPME'')"
  shows "resolve_field bv e cfg data_class data fld = Some (Inr None)
       \<and> from_dict_fields bv e cfg data_class frozen data (fld # flds) init_values post_init_values
           = from_dict_fields bv e cfg data_class frozen data flds init_values post_init_values
       \<and> from_dict_fields bv e cfg data_class frozen data flds init_values post_init_values
           = from_dict_fields bv e cfg data_class frozen data
               (filter (\<lambda>g. field_name g \<noteq> field_name fld) flds) init_values post_init_values
       \<and> (\<forall>iv pv. from_dict_fields (build_value n e cfg) e cfg data_class (dc_frozen dc) data
                      (dc_fields dc) [] [] = Some (Inr (iv, pv))
              \<longrightarrow> map_of iv (field_name fld) = None \<and> map_of pv (field_name fld) = None)
       \<and> (field_init fld \<and> field_default fld = None \<and> field_default_factory fld = None
            \<longrightarrow> (\<forall>v. from_dict n e cfg data_class data \<noteq> Some (Inr v))
              \<and> (\<forall>iv pv. dc_name_error dc = None
                      \<and> \<not> (strict cfg
                            \<and> set (map fst data) - set (map field_name (dc_fields dc)) \<noteq> {})
                      \<and> from_dict_fields (build_value n e cfg) e cfg data_class (dc_frozen dc) data
                          (dc_fields dc) [] [] = Some (Inr (iv, pv))
                    \<longrightarrow> from_dict n e cfg data_class data
                          = Some (Inl (TypeError ''__init__() missing required positional argument''))))
       \<and> (\<forall>d c attrs. field_default fld = Some d \<and> \<not> is_init_var (field_type fld)
              \<and> distinct (map field_name (dc_fields dc))
              \<and> from_dict n e cfg data_class data = Some (Inr (VObj c attrs))
            \<longrightarrow> map_of attrs (field_name fld) = Some d)"
proof (intro conjI allI impI)
  let ?bv = "build_value n e cfg"
  let ?loop = "from_dict_fields ?bv e cfg data_class (dc_frozen dc) data (dc_fields dc) [] []"
  show r: "resolve_field bv e cfg data_class data fld = Some (Inr None)"
    using assms(3) by (rule resolve_field_skip)
  then show "from_dict_fields bv e cfg data_class frozen data (fld # flds) init_values post_init_values
           = from_dict_fields bv e cfg data_class frozen data flds init_values post_init_values"
    by (simp add: bind_res_def)
  show "from_dict_fields bv e cfg data_class frozen data flds init_values post_init_values
           = from_dict_fields bv e cfg data_class frozen data
               (filter (\<lambda>g. field_name g \<noteq> field_name fld) flds) init_values post_init_values"
    using assms(3) by (rule from_dict_fields_skip_filter)
  have omit: "map_of iv (field_name fld) = None \<and> map_of pv (field_name fld) = None"
    if "?loop = Some (Inr (iv, pv))" for iv pv
    using from_dict_fields_skip_omits [OF assms(3) that] by simp
  {
    fix iv pv
    assume l: "?loop = Some (Inr (iv, pv))"
    from omit [OF l] show "map_of iv (field_name fld) = None" by simp
    from omit [OF l] show "map_of pv (field_name fld) = None" by simp
  }
  {
    assume req: "field_init fld \<and> field_default fld = None \<and> field_default_factory fld = None"
    have miss: "init_attrs (dc_fields dc) iv
        = Inl (TypeError ''__init__() missing required positional argument'')"
      if "?loop = Some (Inr (iv, pv))" for iv pv
      using init_attrs_missing [OF assms(2)] req omit [OF that] by simp
    {
      fix v
      show "from_dict n e cfg data_class data \<noteq> Some (Inr v)"
      proof
        assume "from_dict n e cfg data_class data = Some (Inr v)"
        then have "from_dict_with ?bv e cfg data_class data = Some (Inr v)"
          by (simp add: from_dict_def)
        from from_dict_with_Inr [OF this assms(1)] obtain iv pv attrs
          where "?loop = Some (Inr (iv, pv))" and "init_attrs (dc_fields dc) iv = Inr attrs"
          by blast
        with miss show False by simp
      qed
    }
    {
      fix iv pv
      assume h: "dc_name_error dc = None
          \<and> \<not> (strict cfg \<and> set (map fst data) - set (map field_name (dc_fields dc)) \<noteq> {})
          \<and> ?loop = Some (Inr (iv, pv))"
      then have "from_dict_with ?bv e cfg data_class data = Some (instantiate data_class dc iv pv)"
        using from_dict_with_fields_done [OF assms(1)] by blast
      moreover from h miss have "instantiate data_class dc iv pv
          = Inl (TypeError ''__init__() missing required positional argument'')"
        by (simp add: instantiate_def)
      ultimately show "from_dict n e cfg data_class data
          = Some (Inl (TypeError ''__init__() missing required positional argument''))"
        by (simp add: from_dict_def)
    }
  }
  {
    fix d c attrs
    assume h: "field_default fld = Some d \<and> \<not> is_init_var (field_type fld)
        \<and> distinct (map field_name (dc_fields dc))
        \<and> from_dict n e cfg data_class data = Some (Inr (VObj c attrs))"
    then have "from_dict_with ?bv e cfg data_class data = Some (Inr (VObj c attrs))"
      by (simp add: from_dict_def)
    from from_dict_with_Inr [OF this assms(1)] obtain iv pv attrs0
      where l: "?loop = Some (Inr (iv, pv))" and a: "init_attrs (dc_fields dc) iv = Inr attrs0"
        and v: "attrs = set_attrs pv attrs0"
      by auto
    from omit [OF l] have oi: "map_of iv (field_name fld) = None"
      and op: "map_of pv (field_name fld) = None" by simp_all
    from h have "map_of attrs0 (field_name fld) = Some d"
      using init_attrs_default [OF a assms(2) _ oi] by blast
    with v op show "map_of attrs (field_name fld) = Some d"
      by (simp add: set_attrs_other)
  }
qed

theorem skip_sentinel_skips_field_witness:
  "resolve_field (build_value (Suc 0) example_env skip_x) example_env skip_x ''SD''
      [(''s'', VStr ''given''), (''i'', VInt 1)]
      ((required_field ''s'' (TCls CStr))\<lparr>field_default := Some (VStr ''dflt'')\<rparr>)
     = Some (Inr None)
   \<and> from_dict_fields (build_value (Suc 0) example_env skip_x) example_env skip_x ''SD'' False
        [(''s'', VStr ''given''), (''i'', VInt 1)]
        [required_field ''i'' (TCls CInt),
         (required_field ''s'' (TCls CStr))\<lparr>field_default := Some (VStr ''dflt'')\<rparr>] [] []
     = Some (Inr ([(''i'', VInt 1)], []))
   \<and> from_dict (Suc 0) example_env skip_x ''SD'' [(''s'', VStr ''given''), (''i'', VInt 1)]
     = Some (Inr (VObj ''SD'' [(''i'', VInt 1), (''s'', VStr ''dflt'')]))
   \<and> map_of [(''i'', VInt 1), (''s'', VStr ''dflt'')] ''s'' = Some (VStr ''dflt'')
   \<and> from_dict (Suc 0) example_env default_config ''SD'' [(''s'', VStr ''given''), (''i'', VInt 1)]
     = Some (Inr (VObj ''SD'' [(''i'', VInt 1), (''s'', VStr ''given'')]))
   \<and> from_dict (Suc 0) example_env skip_x ''X'' [(''s'', VStr ''given'')]
     = Some (Inl (TypeError ''__init__() missing required positional argument''))"
proof -
  let ?bv = "build_value (Suc 0) example_env skip_x"
  let ?s = "(required_field ''s'' (TCls CStr))\<lparr>field_default := Some (VStr ''dflt'')\<rparr>"
  let ?i = "required_field ''i'' (TCls CInt)"
  let ?sd = "plain_dataclass [?i, ?s]"
  let ?data = "[(''s'', VStr ''given''), (''i'', VInt 1)]"
  let ?o = "required_field ''s'' (TUnion [TCls CStr, TCls CNone])"
  let ?x = "plain_dataclass [?o]"
  have c: "classes example_env ''SD'' = Some ?sd" by (simp add: ex_simps)
  have m: "?s \<in> set (dc_fields ?sd)" by (simp add: plain_dataclass_def)
  have p: "lookup_path skip_x ''SD'' (field_name ?s) = Some (PStr ''SKIPME'')"
    by (simp add: skip_x_def lookup_path_def required_field_def)
  note t = skip_sentinel_skips_field [OF c m p, where bv = ?bv and data = ?data and n = "Suc 0"
      and frozen = False and flds = "[?i, ?s]" and init_values = "[]" and post_init_values = "[]"]
  note t1 = t [THEN conjunct1]
  note t3 = t [THEN conjunct2, THEN conjunct2, THEN conjunct1]
  note t6 = t [THEN conjunct2, THEN conjunct2, THEN conjunct2, THEN conjunct2, THEN conjunct2]
  have f: "filter (\<lambda>g. field_name g \<noteq> field_name ?s) [?i, ?s] = [?i]"
    by (simp add: required_field_def)
  have w2: "from_dict_fields ?bv example_env skip_x ''SD'' False ?data [?i, ?s] [] []
      = Some (Inr ([(''i'', VInt 1)], []))"
    unfolding t3 f
    by (simp add: skip_x_def ex_simps core_simps isinstance_def superclasses_def)
  have w3: "from_dict (Suc 0) example_env skip_x ''SD'' ?data
      = Some (Inr (VObj ''SD'' [(''i'', VInt 1), (''s'', VStr ''dflt'')]))"
    by (simp add: skip_x_def ex_simps core_simps isinstance_def superclasses_def)
  have d: "field_default ?s = Some (VStr ''dflt'') \<and> \<not> is_init_var (field_type ?s)
      \<and> distinct (map field_name (dc_fields ?sd))"
    by (simp add: required_field_def plain_dataclass_def)
  from t6 d w3 have w4: "map_of [(''i'', VInt 1), (''s'', VStr ''dflt'')] (field_name ?s)
      = Some (VStr ''dflt'')"
    by blast
  have w5: "from_dict (Suc 0) example_env default_config ''SD'' ?data
      = Some (Inr (VObj ''SD'' [(''i'', VInt 1), (''s'', VStr ''given'')]))"
    by (simp add: ex_simps core_simps isinstance_def superclasses_def)
  have cx: "classes example_env ''X'' = Some ?x" by (simp add: ex_simps)
  have mx: "?o \<in> set (dc_fields ?x)" by (simp add: plain_dataclass_def)
  have px: "lookup_path skip_x ''X'' (field_name ?o) = Some (PStr ''SKIPME'')"
    by (simp add: skip_x_def lookup_path_def required_field_def)
  note u = skip_sentinel_skips_field [OF cx mx px, where data = "[(''s'', VStr ''given'')]"
      and n = "Suc 0", THEN conjunct2, THEN conjunct2, THEN conjunct2, THEN conjunct2, THEN conjunct1]
  have rq: "field_init ?o \<and> field_default ?o = None \<and> field_default_factory ?o = None"
    by (simp add: required_field_def)
  have lx: "dc_name_error ?x = None
      \<and> \<not> (strict skip_x \<and> set (map fst [(''s'', VStr ''given'')])
              - set (map field_name (dc_fields ?x)) \<noteq> {})
      \<and> from_dict_fields ?bv example_env skip_x ''X'' (dc_frozen ?x) [(''s'', VStr ''given'')]
          (dc_fields ?x) [] [] = Some (Inr ([], []))"
    by (simp add: skip_x_def ex_simps core_simps)
  from u rq lx have w6: "from_dict (Suc 0) example_env skip_x ''X'' [(''s'', VStr ''given'')]
      = Some (Inl (TypeError ''__init__() missing required positional argument''))"
    by blast
  from w4 have w4': "map_of [(''i'', VInt 1), (''s'', VStr ''dflt'')] ''s'' = Some (VStr ''dflt'')"
    by simp
  from t1 w2 w3 w4' w5 w6 show ?thesis by blast
qed




lemma check_field_type_strict:
  "check_field_type e (cfg\<lparr>strict := b\<rparr>) name t v = check_field_type e cfg name t v"
  by (simp add: check_field_type_def cong: if_cong)

lemma lookup_path_strict:
  "lookup_path (cfg\<lparr>strict := b\<rparr>) data_class name = lookup_path cfg data_class name"
  by (simp add: lookup_path_def)

lemma resolve_field_strict:
  "resolve_field bv e (cfg\<lparr>strict := b\<rparr>) data_class data fld
     = resolve_field bv e cfg data_class data fld"
  by (simp add: resolve_field_def lookup_path_strict check_field_type_strict
      cong: if_cong option.case_cong sum.case_cong)

lemma from_dict_fields_strict:
  "from_dict_fields bv e (cfg\<lparr>strict := b\<rparr>) data_class frozen data flds init_values post_init_values
     = from_dict_fields bv e cfg data_class frozen data flds init_values post_init_values"
  by (induction flds arbitrary: init_values post_init_values frozen)
     (simp_all add: resolve_field_strict cong: if_cong option.case_cong)

theorem strict_check_counterexample:
  "from_dict (Suc (Suc 0)) example_env (default_config\<lparr>strict := True\<rparr>) ''Y''
      [(''x'', VDict [(''i'', VInt 1), (''j'', VInt 2)])]
     = Some (Inl (UnexpectedDataError {''j''}))
   \<and> set (map fst [(''x'', VDict [(''i'', VInt 1), (''j'', VInt 2)])])
       - set (map field_name [required_field ''x'' (TCls (CData ''I''))]) = {}
   \<and> from_dict (Suc (Suc 0)) example_env (default_config\<lparr>strict := True\<rparr>) ''F''
      [(''y'', VDict []), (''extra'', VInt 1)]
     = Some (Inl (ForwardReferenceError ''name 'Y' is not defined''))"
  by (simp add: ex_simps core_simps)

text \<open>
  Claim C9, as amended. For a dataclass whose type hints resolve, in strict mode: when
  some raw key matches no field name, \<open>from_dict\<close> fails with UnexpectedDataError
  carrying exactly the raw keys minus the field names, whatever the builder of the
  fields is (no field is resolved first) and at every depth; when every raw key matches
  a field name, the check raises nothing and the call behaves as the same call with
  \<open>strict\<close> off at this level, the fields being built by the same builder.
\<close>

theorem strict_check:
  assumes "classes e data_class = Some dc"
    and "dc_name_error dc = None"
    and "strict cfg"
  shows "(set (map fst data) - set (map field_name (dc_fields dc)) \<noteq> {} \<longrightarrow>
            from_dict_with bv e cfg data_class data
              = Some (Inl (UnexpectedDataError
                   (set (map fst data) - set (map field_name (dc_fields dc)))))
          \<and> from_dict n e cfg data_class data
              = Some (Inl (UnexpectedDataError
                   (set (map fst data) - set (map field_name (dc_fields dc))))))
       \<and> (set (map fst data) - set (map field_name (dc_fields dc)) = {} \<longrightarrow>
            from_dict_with bv e cfg data_class data
              = from_dict_with bv e (cfg\<lparr>strict := False\<rparr>) data_class data)"
proof (cases "set (map fst data) - set (map field_name (dc_fields dc)) = {}")
  case True
  with assms show ?thesis
    by (simp only: from_dict_with_def Let_def from_dict_fields_strict) simp
next
  case False
  with assms have "from_dict_with b e cfg data_class data
      = Some (Inl (UnexpectedDataError (set (map fst data) - set (map field_name (dc_fields dc)))))"
    for b
    by (simp only: from_dict_with_def Let_def) simp
  with False show ?thesis by (simp only: from_dict_def) simp
qed

theorem strict_check_witness:
  "from_dict (Suc 0) example_env (default_config\<lparr>strict := True\<rparr>) ''S''
      [(''s'', VStr ''test''), (''i'', VInt 1)]
     = Some (Inl (UnexpectedDataError {''i''}))
   \<and> from_dict_with (build_value (Suc 0) example_env (default_config\<lparr>strict := True\<rparr>))
        example_env (default_config\<lparr>strict := True\<rparr>) ''S'' [(''s'', VStr ''test'')]
     = Some (Inr (VObj ''S'' [(''s'', VStr ''test'')]))"
proof -
  let ?cfg = "default_config\<lparr>strict := True\<rparr>"
  let ?dc = "plain_dataclass [required_field ''s'' (TCls CStr)]"
  have a: "classes example_env ''S'' = Some ?dc" by (simp add: ex_simps)
  have b: "dc_name_error ?dc = None" by (simp add: plain_dataclass_def)
  have c: "strict ?cfg" by simp
  have k1: "set (map fst [(''s'', VStr ''test''), (''i'', VInt 1)])
              - set (map field_name (dc_fields ?dc)) = {''i''}"
    by (auto simp: plain_dataclass_def required_field_def)
  have k2: "set (map fst [(''s'', VStr ''test'')])
              - set (map field_name (dc_fields ?dc)) = {}"
    by (auto simp: plain_dataclass_def required_field_def)
  note t1 = strict_check [OF a b c, where data = "[(''s'', VStr ''test''), (''i'', VInt 1)]"
      and n = "Suc 0", THEN conjunct1, unfolded k1]
  note t2 = strict_check [OF a b c, where data = "[(''s'', VStr ''test'')]"
      and bv = "build_value (Suc 0) example_env ?cfg", THEN conjunct2, unfolded k2]
  have 1: "from_dict (Suc 0) example_env ?cfg ''S'' [(''s'', VStr ''test''), (''i'', VInt 1)]
     = Some (Inl (UnexpectedDataError {''i''}))"
    using t1 by simp
  have "from_dict_with (build_value (Suc 0) example_env ?cfg) example_env (?cfg\<lparr>strict := False\<rparr>)
       ''S'' [(''s'', VStr ''test'')] = Some (Inr (VObj ''S'' [(''s'', VStr ''test'')]))"
    by (simp add: ex_simps core_simps isinstance_def superclasses_def)
  with t2 have 2: "from_dict_with (build_value (Suc 0) example_env ?cfg) example_env ?cfg
       ''S'' [(''s'', VStr ''test'')] = Some (Inr (VObj ''S'' [(''s'', VStr ''test'')]))"
    by simp
  from 1 2 show ?thesis by (rule conjI)
qed

text \<open>
  Claim C10. For a field with a registered path-spec other than the skip sentinel, the
  round of the loop has three outcomes: the exception of the path lookup, raised as it
  is; the value built from the raw value that the lookup returned, accepted as it is
  (the \<open>check_types\<close> block is not run, so the assembler raises no WrongTypeError); or
  the exception raised while building that value, unchanged (the field's name is not
  prepended to its path).
\<close>

theorem path_field_unchecked:
  assumes "lookup_path cfg data_class (field_name fld) = Some spec"
    and "spec \<noteq> PStr ''SKIPME''"
  shows "(\<forall>er. get_deep_value data spec (path_default fld spec data) = Inl er \<longrightarrow>
            resolve_field bv e cfg data_class data fld = Some (Inl er))
       \<and> (\<forall>d v. get_deep_value data spec (path_default fld spec data) = Inr d
                 \<and> bv (field_type fld) d = Some (Inr v) \<longrightarrow>
            resolve_field bv e cfg data_class data fld = Some (Inr (Some v)))
       \<and> (\<forall>d er. get_deep_value data spec (path_default fld spec data) = Inr d
                 \<and> bv (field_type fld) d = Some (Inl er) \<longrightarrow>
            resolve_field bv e cfg data_class data fld = Some (Inl er))"
  using assms by (simp add: resolve_field_def bind_res_def)

theorem path_field_unchecked_witness:
  "resolve_field (build_value (Suc 0) example_env path_s) example_env path_s ''S''
      [(''foo'', VInt 5)] (required_field ''s'' (TCls CStr)) = Some (Inr (Some (VInt 5)))
   \<and> check_types path_s \<and> \<not> is_instance example_env (VInt 5) (TCls CStr)
   \<and> resolve_field (build_value (Suc 0) example_env path_s) example_env path_s ''Y''
      [(''xr'', VDict [])] (required_field ''x'' (TCls (CData ''I'')))
       = Some (Inl (MissingValueError (Some ''i'')))
   \<and> resolve_field (build_value (Suc 0) example_env path_s) example_env default_config ''Y''
      [(''x'', VDict [])] (required_field ''x'' (TCls (CData ''I'')))
       = Some (Inl (MissingValueError (Some ''x.i'')))"
proof (intro conjI)
  let ?bv = "build_value (Suc 0) example_env path_s"
  let ?s = "required_field ''s'' (TCls CStr)"
  let ?x = "required_field ''x'' (TCls (CData ''I''))"
  have a1: "lookup_path path_s ''S'' (field_name ?s) = Some (PStr ''foo'')"
    by (simp add: path_s_def lookup_path_def required_field_def)
  have a2: "lookup_path path_s ''Y'' (field_name ?x) = Some (PStr ''xr'')"
    by (simp add: path_s_def lookup_path_def required_field_def)
  have n1: "PStr ''foo'' \<noteq> PStr ''SKIPME''" and n2: "PStr ''xr'' \<noteq> PStr ''SKIPME''" by simp_all
  have g1: "get_deep_value [(''foo'', VInt 5)] (PStr ''foo'')
      (path_default ?s (PStr ''foo'') [(''foo'', VInt 5)]) = Inr (VInt 5)"
    by (simp add: get_deep_value_def get_def)
  have g2: "get_deep_value [(''xr'', VDict [])] (PStr ''xr'')
      (path_default ?x (PStr ''xr'') [(''xr'', VDict [])]) = Inr (VDict [])"
    by (simp add: get_deep_value_def get_def)
  have b1: "?bv (field_type ?s) (VInt 5) = Some (Inr (VInt 5))"
    by (simp add: path_s_def ex_simps core_simps)
  have b2: "?bv (field_type ?x) (VDict []) = Some (Inl (MissingValueError (Some ''i'')))"
    by (simp add: path_s_def ex_simps core_simps)
  from path_field_unchecked [OF a1 n1, where bv = ?bv and e = example_env
      and data = "[(''foo'', VInt 5)]"] g1 b1
  show "resolve_field ?bv example_env path_s ''S'' [(''foo'', VInt 5)] ?s = Some (Inr (Some (VInt 5)))"
    by blast
  from path_field_unchecked [OF a2 n2, where bv = ?bv and e = example_env
      and data = "[(''xr'', VDict [])]"] g2 b2
  show "resolve_field ?bv example_env path_s ''Y'' [(''xr'', VDict [])] ?x
       = Some (Inl (MissingValueError (Some ''i'')))"
    by blast
  show "check_types path_s" by (simp add: path_s_def default_config_def)
  show "\<not> is_instance example_env (VInt 5) (TCls CStr)"
    by (simp add: isinstance_def superclasses_def)
  show "resolve_field ?bv example_env default_config ''Y'' [(''x'', VDict [])] ?x
       = Some (Inl (MissingValueError (Some ''x.i'')))"
    by (simp add: path_s_def ex_simps core_simps prepend_path_def)
qed

text \<open>
  Claim C8. With the hook \<open>str.lower\<close> registered for \<open>str\<close> and the field
  \<open>s: Optional[str]\<close>: the input \<open>{"s": "TEST"}\<close> gives \<open>s = "test"\<close> and the input
  \<open>{"s": None}\<close> gives \<open>s = None\<close>, at every depth that allows the nested calls.
\<close>

theorem optional_hook:
  "from_dict (Suc (Suc n)) example_env (default_config\<lparr>type_hooks := [(TCls CStr, str_lower)]\<rparr>)
     ''X'' [(''s'', VStr ''TEST'')] = Some (Inr (VObj ''X'' [(''s'', VStr ''test'')]))
   \<and> from_dict (Suc n) example_env (default_config\<lparr>type_hooks := [(TCls CStr, str_lower)]\<rparr>)
     ''X'' [(''s'', VNone)] = Some (Inr (VObj ''X'' [(''s'', VNone)]))"
  by (simp add: ex_simps core_simps str_lower_def lower_char_def)

text \<open>
  Claim C1, on the code. With \<open>check_types\<close> on and \<open>allow_superclasses\<close> off, the field
  \<open>s: Optional[str]\<close> given \<open>5\<close> is not rejected: \<open>from_dict\<close> returns an instance holding
  \<open>5\<close>, which is no instance of \<open>Optional[str]\<close>. The same raw value for a field
  declared \<open>str\<close> is rejected with WrongTypeError.
\<close>

theorem optional_field_unchecked:
  "from_dict (Suc (Suc n)) example_env default_config ''X'' [(''s'', VInt 5)]
     = Some (Inr (VObj ''X'' [(''s'', VInt 5)]))
   \<and> check_types default_config \<and> \<not> allow_superclasses default_config
   \<and> \<not> is_instance example_env (VInt 5) (TUnion [TCls CStr, TCls CNone])
   \<and> from_dict (Suc n) example_env default_config ''S'' [(''s'', VInt 5)]
     = Some (Inl (WrongTypeError (Some ''s'') (TCls CStr) (VInt 5)))"
  by (simp add: ex_simps core_simps isinstance_def superclasses_def)

section \<open>The depth bound only cuts off\<close>

text \<open>
  Every function of the value builder is monotone in the recursive call it is given,
  so a result obtained with \<open>n\<close> nested calls is the result for every larger bound:
  \<open>None\<close> means that the bound was too small, and nothing else.
\<close>

lemma below2_below: "below2 f g \<Longrightarrow> below (f t) (g t)"
  by (simp add: below_def below2_def)

lemma bind_res_mono:
  "m = Some r \<Longrightarrow> bind_res m f = Some q \<Longrightarrow> (\<And>x. f x = Some q \<Longrightarrow> f' x = Some q)
   \<Longrightarrow> bind_res (Some r) f' = Some q"
  by (cases r) (auto simp: bind_res_def)

lemma bind_res_Some:
  "bind_res m f = Some q \<Longrightarrow>
   (\<exists>er. m = Some (Inl er) \<and> q = Inl er) \<or> (\<exists>x. m = Some (Inr x) \<and> f x = Some q)"
  by (auto simp: bind_res_def split: option.splits sum.splits)

lemma build_items_mono:
  "below b b' \<Longrightarrow> build_items b xs = Some r \<Longrightarrow> build_items b' xs = Some r"
proof (induction xs arbitrary: r)
  case Nil
  then show ?case by simp
next
  case (Cons x xs)
  then show ?case
    by (auto simp: bind_res_def below_def split: option.splits sum.splits)
qed

lemma build_dict_values_mono:
  "below b b' \<Longrightarrow> build_dict_values b kvs = Some r \<Longrightarrow> build_dict_values b' kvs = Some r"
proof (induction kvs arbitrary: r)
  case Nil
  then show ?case by simp
next
  case (Cons kv kvs)
  then show ?case
    by (cases kv) (auto simp: bind_res_def below_def split: option.splits sum.splits)
qed

lemma build_zip_longest_mono:
  "below2 bv bv' \<Longrightarrow> build_zip_longest bv xs ts = Some r \<Longrightarrow> build_zip_longest bv' xs ts = Some r"
proof (induction bv xs ts arbitrary: r rule: build_zip_longest.induct)
  case (1 bv)
  then show ?case by simp
next
  case (2 bv item items t ts)
  then show ?case
    by (auto simp: bind_res_def below2_def split: option.splits sum.splits)
next
  case (3 bv item items)
  then show ?case
    by (auto simp: bind_res_def below2_def build_as_is_def split: option.splits sum.splits)
next
  case (4 bv t ts)
  then show ?case
    by (auto simp: bind_res_def below2_def split: option.splits sum.splits)
qed

lemma build_dict_of_items_mono:
  "below b b' \<Longrightarrow> build_dict_of_items b acc xs = Some r \<Longrightarrow> build_dict_of_items b' acc xs = Some r"
proof (induction xs arbitrary: acc r)
  case Nil
  then show ?case by simp
next
  case (Cons x xs)
  then show ?case
    by (auto simp: bind_res_def below_def split: option.splits sum.splits)
qed

lemma item_builder_mono:
  "below2 bv bv' \<Longrightarrow> below (item_builder bv ts i) (item_builder bv' ts i)"
  by (simp add: item_builder_def below_def below2_def)

lemma rebuild_collection_mono:
  assumes "below2 bv bv'" and "rebuild_collection bv c d = Some r"
  shows "rebuild_collection bv' c d = Some r"
proof -
  note m = item_builder_mono [OF assms(1), of "extract_generic c" 0]
  show ?thesis
    using assms(2) build_items_mono [OF m] build_dict_of_items_mono [OF m]
    by (cases d) (auto simp: rebuild_collection_def bind_res_def split: option.splits sum.splits)
qed

lemma build_value_for_collection_mono:
  assumes "below2 bv bv'" and "build_value_for_collection bv c d = Some r"
  shows "build_value_for_collection bv' c d = Some r"
proof -
  note m = item_builder_mono [OF assms(1), of "extract_generic c" 1]
  note r = rebuild_collection_mono [OF assms(1)]
  note z = build_zip_longest_mono [OF assms(1)]
  note i = build_items_mono [OF below2_below [OF assms(1)]]
  show ?thesis
  proof (cases d)
    case (VDict kvs)
    with assms(2) build_dict_values_mono [OF m] r show ?thesis
      by (auto simp: build_value_for_collection_def bind_res_def split: option.splits sum.splits if_splits)
  next
    case (VTuple xs)
    with assms(2) r z i show ?thesis
      by (auto simp: build_value_for_collection_def bind_res_def
          split: option.splits sum.splits if_splits ty.splits)
  next
    case (VList xs)
    with assms(2) r show ?thesis
      by (auto simp: build_value_for_collection_def split: if_splits)
  next
    case (VStr s)
    with assms(2) r show ?thesis
      by (auto simp: build_value_for_collection_def split: if_splits)
  qed (use assms(2) in \<open>simp_all add: build_value_for_collection_def\<close>)
qed

lemma union_loop_mono:
  "below2 bv bv' \<Longrightarrow> union_loop bv e cfg d ts ms = Some r \<Longrightarrow> union_loop bv' e cfg d ts ms = Some r"
proof (induction ts arbitrary: ms)
  case Nil
  then show ?case by simp
next
  case (Cons t ts)
  from Cons.prems(2) obtain q where q: "bv t d = Some q"
    by (cases "bv t d") auto
  with Cons.prems(1) have q': "bv' t d = Some q" by (simp add: below2_def)
  from Cons.prems(2) Cons.IH [OF Cons.prems(1)] show ?case
    unfolding union_loop.simps q q'
    by (auto split: sum.splits bool.splits if_splits)
qed

lemma build_value_for_union_mono:
  assumes "below2 bv bv'" and "build_value_for_union bv e cfg u d = Some r"
  shows "build_value_for_union bv' e cfg u d = Some r"
proof (cases "is_optional u \<and> length (extract_generic u) = 2")
  case True
  with assms show ?thesis by (simp add: build_value_for_union_def below2_def)
next
  case False
  with assms(2) obtain q where q: "union_loop bv e cfg d (extract_generic u) [] = Some q"
    by (cases "union_loop bv e cfg d (extract_generic u) []")
       (auto simp: build_value_for_union_def bind_res_def)
  from union_loop_mono [OF assms(1) q] q assms(2) False show ?thesis
    by (auto simp: build_value_for_union_def Let_def)
qed

lemma resolve_field_mono:
  assumes "below2 bv bv'" and "resolve_field bv e cfg c d f = Some r"
  shows "resolve_field bv' e cfg c d f = Some r"
proof (cases "lookup_path cfg c (field_name f)")
  case None
  show ?thesis
  proof (cases "map_of d (field_name f)")
    case n: None
    with None assms(2) show ?thesis by (simp add: resolve_field_def)
  next
    case (Some raw)
    with None assms(2) obtain q where q: "bv (field_type f) raw = Some q"
      by (cases "bv (field_type f) raw") (auto simp: resolve_field_def)
    with assms(1) have q': "bv' (field_type f) raw = Some q" by (simp add: below2_def)
    from None Some assms(2) q q' show ?thesis by (simp add: resolve_field_def)
  qed
next
  case (Some spec)
  show ?thesis
  proof (cases "get_deep_value d spec (path_default f spec d)")
    case (Inl er)
    with Some assms(2) show ?thesis by (auto simp: resolve_field_def split: if_splits)
  next
    case (Inr raw)
    show ?thesis
    proof (cases "spec = PStr ''SKIPME''")
      case True
      with Some assms(2) show ?thesis by (simp add: resolve_field_def)
    next
      case False
      with Some Inr assms(2) obtain q where q: "bv (field_type f) raw = Some q"
        by (cases "bv (field_type f) raw") (auto simp: resolve_field_def bind_res_def)
      with assms(1) have q': "bv' (field_type f) raw = Some q" by (simp add: below2_def)
      from False Some Inr assms(2) q q' show ?thesis by (simp add: resolve_field_def)
    qed
  qed
qed

lemma from_dict_fields_mono:
  "below2 bv bv' \<Longrightarrow> from_dict_fields bv e cfg c fr d fs iv pv = Some r
   \<Longrightarrow> from_dict_fields bv' e cfg c fr d fs iv pv = Some r"
proof (induction fs arbitrary: iv pv)
  case Nil
  then show ?case by simp
next
  case (Cons f fs)
  from Cons.prems(2) obtain q where q: "resolve_field bv e cfg c d f = Some q"
    by (cases "resolve_field bv e cfg c d f") (auto simp: bind_res_def)
  note q' = resolve_field_mono [OF Cons.prems(1) q]
  from Cons.prems(2) Cons.IH [OF Cons.prems(1)] show ?case
    unfolding from_dict_fields.simps q q'
    by (auto simp: bind_res_def split: sum.splits option.splits if_splits)
qed

lemma from_dict_with_mono:
  assumes "below2 bv bv'" and "from_dict_with bv e cfg c d = Some r"
  shows "from_dict_with bv' e cfg c d = Some r"
proof (cases "classes e c")
  case None
  with assms(2) show ?thesis by (simp add: from_dict_with_def)
next
  case (Some dc)
  show ?thesis
  proof (cases "from_dict_fields bv e cfg c (dc_frozen dc) d (dc_fields dc) [] []")
    case None
    with Some assms(2) show ?thesis
      by (auto simp: from_dict_with_def bind_res_def Let_def split: option.splits if_splits)
  next
    case q: (Some q)
    note q' = from_dict_fields_mono [OF assms(1) q]
    from Some q q' have "from_dict_with bv' e cfg c d = from_dict_with bv e cfg c d"
      by (simp add: from_dict_with_def Let_def cong: option.case_cong if_cong)
    with assms(2) show ?thesis by simp
  qed
qed

lemma dispatch_mono:
  assumes "below2 bv bv'" and "dispatch bv e cfg t d = Some r"
  shows "dispatch bv' e cfg t d = Some r"
proof (cases "is_union t \<or> is_generic_collection t")
  case True
  with assms(2) build_value_for_union_mono [OF assms(1)]
    build_value_for_collection_mono [OF assms(1)]
  show ?thesis by (auto simp: dispatch_def split: if_splits)
next
  case False
  then have d: "dispatch b e cfg t d =
      (case (t, d) of
              (TCls (CData n), VDict kvs) \<Rightarrow>
                if classes e n \<noteq> None then from_dict_with b e cfg n kvs
                else Some (Inr d)
            | _ \<Rightarrow> Some (Inr d))" for b
    by (simp add: dispatch_def)
  show ?thesis
  proof (cases "\<exists>n kvs. t = TCls (CData n) \<and> d = VDict kvs \<and> classes e n \<noteq> None")
    case True
    then obtain n kvs where "t = TCls (CData n)" "d = VDict kvs" "classes e n \<noteq> None" by blast
    with assms(2) from_dict_with_mono [OF assms(1)] show ?thesis
      unfolding d by simp
  next
    case f: False
    have "dispatch b e cfg t d = Some (Inr d)" for b
      using f unfolding d
      by (auto split: prod.splits ty.splits cls.splits val.splits)
    with assms(2) show ?thesis by simp
  qed
qed

lemma build_value_with_mono:
  assumes "below2 bv bv'" and "build_value_with bv e cfg t d = Some r"
  shows "build_value_with bv' e cfg t d = Some r"
proof -
  define t' where "t' = (if is_init_var t then extract_init_var t else t)"
  define h where "h = (case map_of (type_hooks cfg) t' of Some hook \<Rightarrow> hook d | None \<Rightarrow> Inr d)"
  show ?thesis
  proof (cases h)
    case (Inl er)
    with assms(2) show ?thesis
      unfolding build_value_with_def Let_def t'_def [symmetric] h_def [symmetric] by auto
  next
    case (Inr d1)
    show ?thesis
    proof (cases "is_optional t' \<and> d1 = VNone")
      case True
      with Inr assms(2) show ?thesis
        unfolding build_value_with_def Let_def t'_def [symmetric] h_def [symmetric] by auto
    next
      case False
      with Inr assms(2) obtain q where q: "dispatch bv e cfg t' d1 = Some q"
        unfolding build_value_with_def Let_def t'_def [symmetric] h_def [symmetric]
        by (cases "dispatch bv e cfg t' d1") (auto simp: bind_res_def)
      note q' = dispatch_mono [OF assms(1) q]
      from False Inr assms(2) q q' show ?thesis
        unfolding build_value_with_def Let_def t'_def [symmetric] h_def [symmetric]
        by auto
    qed
  qed
qed

lemma build_value_Suc: "below2 (build_value n e cfg) (build_value (Suc n) e cfg)"
proof (induction n)
  case 0
  show ?case by (simp add: below2_def)
next
  case (Suc n)
  show ?case
    unfolding below2_def
  proof (intro allI impI)
    fix t x r
    assume "build_value (Suc n) e cfg t x = Some r"
    then have w: "build_value_with (build_value n e cfg) e cfg t x = Some r"
      by (simp only: build_value.simps)
    have "build_value (Suc (Suc n)) e cfg t x
        = build_value_with (build_value (Suc n) e cfg) e cfg t x"
      by (rule build_value.simps(2))
    also have "\<dots> = Some r"
      by (rule build_value_with_mono [OF Suc w])
    finally show "build_value (Suc (Suc n)) e cfg t x = Some r" .
  qed
qed

lemma build_value_mono:
  "build_value n e cfg t d = Some r \<Longrightarrow> build_value (n + k) e cfg t d = Some r"
proof (induction k)
  case 0
  then show ?case by simp
next
  case (Suc k)
  with build_value_Suc [of "n + k" e cfg] show ?case by (simp add: below2_def)
qed

lemma from_dict_mono:
  "from_dict n e cfg c d = Some r \<Longrightarrow> from_dict (n + k) e cfg c d = Some r"
  unfolding from_dict_def
  by (rule from_dict_with_mono [rotated]) (auto simp: below2_def build_value_mono)

end
